theory Spec2Isabelle
  imports Complex_Main
begin

section \<open>The AAK waveform kernel of \<open>src/gpuAAK.cu\<close>\<close>

text \<open>
  The embedding follows the host (non-CUDA, single-threaded) path of the source file.
  A C \<open>double\<close> is a \<^typ>\<open>real\<close>: arithmetic is exact, there is no rounding, no
  infinity and no NaN, and the two IEEE zeros are one number. A C \<open>int\<close> is an
  \<^typ>\<open>int\<close>; the index arithmetic of the file stays far inside 32 bits for every
  array the functions can address, so no wrap-around is written out. \<open>cmplx\<close> is
  \<^typ>\<open>complex\<close>. An array is a list, read with \<open>!\<close> at the position the source
  indexes; every read or write through a pointer parameter is checked against the
  length of the list and an access outside it is the error \<open>MemoryFault\<close>.
  The three-element scratch vectors of the geometry code are lists of length three.
\<close>

subsection \<open>Errors and array access\<close>

text \<open>
  \<open>ConfigError\<close> carries the message and the status code handed to
  \<open>throw_python_error\<close>. \<open>MemoryFault\<close> stands for every access the C code would make
  outside an array or to a cell of a local array that was never assigned.
\<close>

datatype error = ConfigError string int | MemoryFault

definition rd :: "'a list \<Rightarrow> int \<Rightarrow> error + 'a" where
  "rd xs i = (if 0 \<le> i \<and> i < int (length xs) then Inr (xs ! nat i) else Inl MemoryFault)"

definition wr :: "'a list \<Rightarrow> int \<Rightarrow> 'a \<Rightarrow> error + 'a list" where
  "wr xs i v = (if 0 \<le> i \<and> i < int (length xs) then Inr (xs[nat i := v]) else Inl MemoryFault)"

text \<open>A cell of a local array holds \<open>None\<close> until the code assigns it.\<close>

definition rd_local :: "'a option list \<Rightarrow> int \<Rightarrow> error + 'a" where
  "rd_local xs i =
     (case rd xs i of
        Inl err \<Rightarrow> Inl err
      | Inr None \<Rightarrow> Inl MemoryFault
      | Inr (Some v) \<Rightarrow> Inr v)"

subsection \<open>Geometry primitives\<close>

definition d_dot_product :: "real list \<Rightarrow> real list \<Rightarrow> real" where
  "d_dot_product u v = u ! 0 * v ! 0 + u ! 1 * v ! 1 + u ! 2 * v ! 2"

definition d_cross :: "real list \<Rightarrow> real list \<Rightarrow> real list" where
  "d_cross u v =
     [u ! 1 * v ! 2 - u ! 2 * v ! 1,
      u ! 2 * v ! 0 - u ! 0 * v ! 2,
      u ! 0 * v ! 1 - u ! 1 * v ! 0]"

definition d_vec_norm :: "real list \<Rightarrow> real" where
  "d_vec_norm u = sqrt (u ! 0 * u ! 0 + u ! 1 * u ! 1 + u ! 2 * u ! 2)"

subsection \<open>Rotation coefficients\<close>

text \<open>
  \<open>d_RotCoeff\<close> overwrites all of its six output arrays (\<open>rot\<close> of length 4, the
  others of length 3), so the model returns them together and does not take their old
  contents.
\<close>

record rot_out =
  rot :: "real list"
  n_vec :: "real list"
  L_vec :: "real list"
  S_vec :: "real list"
  nxL :: "real list"
  nxS :: "real list"

definition norm_floor :: real where
  "norm_floor = 1 / 10 ^ 6"

definition d_RotCoeff ::
  "real \<Rightarrow> real \<Rightarrow> real \<Rightarrow> real \<Rightarrow> real \<Rightarrow> real \<Rightarrow> rot_out" where
  "d_RotCoeff iota theta_S phi_S theta_K phi_K alpha =
     (let n = [sin theta_S * cos phi_S, sin theta_S * sin phi_S, cos theta_S];
          S = [sin theta_K * cos phi_K, sin theta_K * sin phi_K, cos theta_K];
          L = [cos iota * sin theta_K * cos phi_K
                 + sin iota * (sin alpha * sin phi_K - cos alpha * cos theta_K * cos phi_K),
               cos iota * sin theta_K * sin phi_K
                 - sin iota * (sin alpha * cos phi_K + cos alpha * cos theta_K * sin phi_K),
               cos iota * cos theta_K + sin iota * cos alpha * sin theta_K];
          nxL_v = d_cross n L;
          nxS_v = d_cross n S;
          norm0 = d_vec_norm nxL_v * d_vec_norm nxS_v;
          dot1 = d_dot_product nxL_v nxS_v;
          norm = (if norm0 < norm_floor then norm_floor else norm0);
          cosrot = dot1 / norm;
          dot2 = d_dot_product L nxS_v;
          sinrot0 = dot2;
          dot3 = d_dot_product S nxL_v;
          sinrot1 = sinrot0 - dot3;
          sinrot = sinrot1 / norm;
          rot0 = 2 * cosrot * cosrot - 1;
          rot1 = cosrot * sinrot;
          rot2 = - rot1;
          rot3 = rot0
      in \<lparr>rot = [rot0, rot1, rot2, rot3], n_vec = n, L_vec = L, S_vec = S,
          nxL = nxL_v, nxS = nxS_v\<rparr>)"


subsection \<open>Spline-segment locator\<close>

text \<open>
  \<open>find_start_inds\<close> works on two caller-owned arrays and on the knot count behind the
  pointer \<open>length\<close>. The loop returns the arrays together with the value of the loop
  index \<open>i\<close> when the loop is left, by the \<open>break\<close> or by its condition; the function
  then stores \<open>i + 1\<close> through \<open>length\<close>. The cast \<open>(int) std::ceil(t / delta_t)\<close> is
  the integer ceiling of the exact quotient; a quotient outside the range of \<open>int\<close> and
  a spacing of zero, where C leaves the cast undefined, are not told apart from the
  rest.
\<close>

record locator =
  start_inds :: "int list"
  unit_length :: "int list"
  length_val :: int

function find_start_inds_loop ::
  "int \<Rightarrow> locator \<Rightarrow> real list \<Rightarrow> real \<Rightarrow> int \<Rightarrow> real \<Rightarrow> error + locator \<times> int" where
  "find_start_inds_loop i st t_arr delta_t new_length T =
     (if i < length_val st then
        (case rd t_arr i of
           Inl err \<Rightarrow> Inl err
         | Inr t \<Rightarrow>
             if t < T then
               (case wr (start_inds st) i \<lceil>t / delta_t\<rceil> of
                  Inl err \<Rightarrow> Inl err
                | Inr si \<Rightarrow>
                    (case rd si i of
                       Inl err \<Rightarrow> Inl err
                     | Inr a \<Rightarrow>
                         (case rd si (i - 1) of
                            Inl err \<Rightarrow> Inl err
                          | Inr b \<Rightarrow>
                              (case wr (unit_length st) (i - 1) (a - b) of
                                 Inl err \<Rightarrow> Inl err
                               | Inr ul \<Rightarrow>
                                   find_start_inds_loop (i + 1)
                                     (st\<lparr>start_inds := si, unit_length := ul\<rparr>)
                                     t_arr delta_t new_length T))))
             else
               (case wr (start_inds st) i new_length of
                  Inl err \<Rightarrow> Inl err
                | Inr si \<Rightarrow>
                    (case rd si (i - 1) of
                       Inl err \<Rightarrow> Inl err
                     | Inr b \<Rightarrow>
                         (case wr (unit_length st) (i - 1) (new_length - b) of
                            Inl err \<Rightarrow> Inl err
                          | Inr ul \<Rightarrow> Inr (st\<lparr>start_inds := si, unit_length := ul\<rparr>, i)))))
      else Inr (st, i))"
  by pat_completeness auto
termination
  by (relation "measure (\<lambda>(i, st, t_arr, delta_t, new_length, T). nat (length_val st - i))")
     auto

declare find_start_inds_loop.simps [simp del]

definition find_start_inds ::
  "int list \<Rightarrow> int list \<Rightarrow> real list \<Rightarrow> real \<Rightarrow> int \<Rightarrow> int \<Rightarrow> error + locator" where
  "find_start_inds start_inds0 unit_length0 t_arr delta_t length0 new_length =
     (let T = real_of_int (new_length - 1) * delta_t in
      case wr start_inds0 0 0 of
        Inl err \<Rightarrow> Inl err
      | Inr si \<Rightarrow>
          (case find_start_inds_loop 1
                  \<lparr>start_inds = si, unit_length = unit_length0, length_val = length0\<rparr>
                  t_arr delta_t new_length T of
             Inl err \<Rightarrow> Inl err
           | Inr (st, i) \<Rightarrow> Inr (st\<lparr>length_val := i + 1\<rparr>)))"

text \<open>
  The knots the loop looks at are those of index \<open>1\<close> to \<open>length - 1\<close>; the run is
  truncated when one of them is not below \<open>T\<close>.
\<close>

definition window_end :: "real \<Rightarrow> int \<Rightarrow> real" where
  "window_end delta_t new_length = real_of_int (new_length - 1) * delta_t"

definition no_truncation :: "real list \<Rightarrow> real \<Rightarrow> int \<Rightarrow> int \<Rightarrow> bool" where
  "no_truncation t_arr delta_t length0 new_length =
     (\<forall>k \<in> {1 ..< nat length0}. t_arr ! k < window_end delta_t new_length)"

definition strictly_increasing :: "real list \<Rightarrow> bool" where
  "strictly_increasing ts = (\<forall>k \<in> {1 ..< length ts}. ts ! (k - 1) < ts ! k)"

text \<open>The sum of the first \<open>m\<close> segment lengths.\<close>

definition segment_sum :: "int list \<Rightarrow> nat \<Rightarrow> int" where
  "segment_sum ul m = sum_list (take m ul)"

text \<open>
  The arrays the caller hands over hold at least what a run over \<open>length\<close> knots
  touches: \<open>start_inds[0]\<close> is written in any case.
\<close>

definition arrays_fit :: "int list \<Rightarrow> int list \<Rightarrow> real list \<Rightarrow> int \<Rightarrow> bool" where
  "arrays_fit start_inds0 unit_length0 t_arr length0 =
     (start_inds0 \<noteq> [] \<and> length0 \<le> int (length start_inds0)
      \<and> length0 - 1 \<le> int (length unit_length0) \<and> length0 \<le> int (length t_arr))"

subsection \<open>Constants and library functions of the kernel\<close>

text \<open>
  The physical constants come from \<open>global.h\<close> and the Bessel functions from the GNU
  Scientific Library; neither is part of the file, so the kernel takes them as an
  environment. \<open>M_PI\<close> is \<^term>\<open>pi\<close>, \<open>pow(x, 2./3.)\<close> on a non-negative \<open>x\<close> is
  \<^term>\<open>x powr (2 / 3)\<close>, and \<open>atan2\<close> is the two-argument arctangent of the C library.
\<close>

record env =
  MTSUN_SI :: real
  GPCINSEC :: real
  YRSID_SI :: real
  AUsec :: real
  gsl_sf_bessel_J1 :: "real \<Rightarrow> real"
  gsl_sf_bessel_Jn :: "int \<Rightarrow> real \<Rightarrow> real"

definition atan2 :: "real \<Rightarrow> real \<Rightarrow> real" where
  "atan2 y x =
     (if 0 < x then arctan (y / x)
      else if x < 0 \<and> 0 \<le> y then arctan (y / x) + pi
      else if x < 0 then arctan (y / x) - pi
      else if 0 < y then pi / 2
      else if y < 0 then - (pi / 2)
      else 0)"

definition NUM_PARS :: int where
  "NUM_PARS = 8"

definition MAX_SPLINE_POINTS :: int where
  "MAX_SPLINE_POINTS = 160"

definition fill_val :: real where
  "fill_val = 1 / 10 ^ 6"

definition halfsqrt3 :: real where
  "halfsqrt3 = sqrt 3 / 2"

subsection \<open>Staging of the spline coefficients\<close>

text \<open>
  The copy loops of lines 119 and 126, on the host path: \<open>start = 0\<close>,
  \<open>increment = 1\<close>. The destination is a local array of fixed capacity.
\<close>

function stage :: "int \<Rightarrow> int \<Rightarrow> real list \<Rightarrow> real option list \<Rightarrow> error + real option list" where
  "stage i end_i src dst =
     (if i < end_i then
        (case rd src i of
           Inl err \<Rightarrow> Inl err
         | Inr v \<Rightarrow>
             (case wr dst i (Some v) of
                Inl err \<Rightarrow> Inl err
              | Inr dst' \<Rightarrow> stage (i + 1) end_i src dst'))
      else Inr dst)"
  by pat_completeness auto
termination
  by (relation "measure (\<lambda>(i, end_i, src, dst). nat (end_i - i))") auto

declare stage.simps [simp del]

subsection \<open>Spline evaluation at one sample\<close>

record spline_pars =
  e_v :: real
  Phi_v :: real
  gim_v :: real
  alp_v :: real
  nu_v :: real
  gimdot_v :: real
  OmegaPhi_v :: real
  lam_v :: real

text \<open>
  One coefficient of the staged buffer, at the index the source writes out for every
  parameter: \<open>(coeff_num * init_length + old_ind) * NUM_PARS + par_num\<close>.
\<close>

definition coeff :: "real option list \<Rightarrow> int \<Rightarrow> int \<Rightarrow> int \<Rightarrow> int \<Rightarrow> error + real" where
  "coeff spline_coeffs init_length old_ind coeff_num par_num =
     rd_local spline_coeffs ((coeff_num * init_length + old_ind) * NUM_PARS + par_num)"

text \<open>
  Lines 194 to 242 for one parameter: its four coefficients \<open>p_y\<close>, \<open>p_c1\<close>, \<open>p_c2\<close>,
  \<open>p_c3\<close> and the cubic in \<open>x\<close>, \<open>x2 = x * x\<close> and \<open>x3 = x * x2\<close>.
\<close>

definition spline_value ::
  "real option list \<Rightarrow> int \<Rightarrow> int \<Rightarrow> int \<Rightarrow> real \<Rightarrow> error + real" where
  "spline_value spline_coeffs init_length old_ind par_num x =
     (case coeff spline_coeffs init_length old_ind 0 par_num of
        Inl err \<Rightarrow> Inl err
      | Inr p_y \<Rightarrow>
     (case coeff spline_coeffs init_length old_ind 1 par_num of
        Inl err \<Rightarrow> Inl err
      | Inr p_c1 \<Rightarrow>
     (case coeff spline_coeffs init_length old_ind 2 par_num of
        Inl err \<Rightarrow> Inl err
      | Inr p_c2 \<Rightarrow>
     (case coeff spline_coeffs init_length old_ind 3 par_num of
        Inl err \<Rightarrow> Inl err
      | Inr p_c3 \<Rightarrow>
          (let x2 = x * x; x3 = x * x2
           in Inr (p_y + p_c1 * x + p_c2 * x2 + p_c3 * x3))))))"

text \<open>Lines 187 to 242: the segment of sample \<open>i\<close>, its local time and the eight parameters.\<close>

definition sample_pars ::
  "real option list \<Rightarrow> real option list \<Rightarrow> int list \<Rightarrow> real \<Rightarrow> int \<Rightarrow> int
     \<Rightarrow> error + spline_pars" where
  "sample_pars spline_coeffs start_t interval_inds delta_t init_length i =
     (let t = delta_t * real_of_int i in
      case rd interval_inds i of
        Inl err \<Rightarrow> Inl err
      | Inr old_ind \<Rightarrow>
     (case rd_local start_t old_ind of
        Inl err \<Rightarrow> Inl err
      | Inr start_t_i \<Rightarrow>
          (let x = t - start_t_i in
     (case spline_value spline_coeffs init_length old_ind 0 x of Inl err \<Rightarrow> Inl err | Inr e \<Rightarrow>
     (case spline_value spline_coeffs init_length old_ind 1 x of Inl err \<Rightarrow> Inl err | Inr Phi \<Rightarrow>
     (case spline_value spline_coeffs init_length old_ind 2 x of Inl err \<Rightarrow> Inl err | Inr gim \<Rightarrow>
     (case spline_value spline_coeffs init_length old_ind 3 x of Inl err \<Rightarrow> Inl err | Inr alp \<Rightarrow>
     (case spline_value spline_coeffs init_length old_ind 4 x of Inl err \<Rightarrow> Inl err | Inr nu \<Rightarrow>
     (case spline_value spline_coeffs init_length old_ind 5 x of Inl err \<Rightarrow> Inl err | Inr gimdot \<Rightarrow>
     (case spline_value spline_coeffs init_length old_ind 6 x of Inl err \<Rightarrow> Inl err | Inr OmegaPhi \<Rightarrow>
     (case spline_value spline_coeffs init_length old_ind 7 x of Inl err \<Rightarrow> Inl err | Inr lam \<Rightarrow>
        Inr \<lparr>e_v = e, Phi_v = Phi, gim_v = gim, alp_v = alp, nu_v = nu,
             gimdot_v = gimdot, OmegaPhi_v = OmegaPhi, lam_v = lam\<rparr>)))))))))))"

subsection \<open>Geometry of one sample\<close>

text \<open>
  The eight source scalars of the call travel together. \<open>qS\<close> and \<open>qK\<close> are clamped
  once per call (lines 133 to 136), \<open>lam\<close> once per sample (lines 244 and 245, upper
  bound first).
\<close>

record geometry =
  M_phys :: real
  S_phys :: real
  mu :: real
  qS :: real
  phiS :: real
  qK :: real
  phiK :: real
  dist :: real

definition clamp_colat :: "real \<Rightarrow> real" where
  "clamp_colat q =
     (let q1 = (if q < fill_val then fill_val else q)
      in if q1 > pi - fill_val then pi - fill_val else q1)"

definition clamp_lam :: "real \<Rightarrow> real" where
  "clamp_lam lam =
     (let l1 = (if lam > pi - fill_val then pi - fill_val else lam)
      in if l1 < fill_val then fill_val else l1)"

record antenna_out =
  FplusI :: real
  FcrosI :: real
  FplusII :: real
  FcrosII :: real

definition orbphs_at :: "env \<Rightarrow> real \<Rightarrow> real" where
  "orbphs_at ev t = 2 * pi * t / YRSID_SI ev"

text \<open>Lines 275 to 318. The arguments \<open>qS_c\<close> and \<open>qK_c\<close> are the clamped colatitudes.\<close>

definition antenna ::
  "env \<Rightarrow> bool \<Rightarrow> real \<Rightarrow> real \<Rightarrow> real \<Rightarrow> real \<Rightarrow> real \<Rightarrow> antenna_out" where
  "antenna ev mich t qS_c phiS_a qK_c phiK_a =
     (if mich then
        (let cosqS = cos qS_c; sinqS = sin qS_c; cosqK = cos qK_c; sinqK = sin qK_c;
             orbphs = orbphs_at ev t;
             cosorbphs = cos (orbphs - phiS_a);
             sinorbphs = sin (orbphs - phiS_a);
             cosq = 1 / 2 * cosqS - halfsqrt3 * sinqS * cosorbphs;
             phiw = orbphs + atan2 (halfsqrt3 * cosqS + 1 / 2 * sinqS * cosorbphs) (sinqS * sinorbphs);
             psiup = 1 / 2 * cosqK - halfsqrt3 * sinqK * cos (orbphs - phiK_a)
                       - cosq * (cosqK * cosqS + sinqK * sinqS * cos (phiK_a - phiS_a));
             psidown = 1 / 2 * sinqK * sinqS * sin (phiK_a - phiS_a)
                       - halfsqrt3 * cos orbphs * (cosqK * sinqS * sin phiS_a - cosqS * sinqK * sin phiK_a)
                       - halfsqrt3 * sin orbphs * (cosqS * sinqK * cos phiK_a - cosqK * sinqS * cos phiS_a);
             psi = atan2 psiup psidown;
             cosq1 = 1 / 2 * (1 + cosq * cosq);
             cos2phi = cos (2 * phiw);
             sin2phi = sin (2 * phiw);
             cos2psi = cos (2 * psi);
             sin2psi = sin (2 * psi)
         in \<lparr>FplusI = cosq1 * cos2phi * cos2psi - cosq * sin2phi * sin2psi,
             FcrosI = cosq1 * cos2phi * sin2psi + cosq * sin2phi * cos2psi,
             FplusII = cosq1 * sin2phi * cos2psi + cosq * cos2phi * sin2psi,
             FcrosII = cosq1 * sin2phi * sin2psi - cosq * cos2phi * cos2psi\<rparr>)
      else \<lparr>FplusI = 1, FcrosI = 0, FplusII = 0, FcrosII = 1\<rparr>)"

text \<open>
  What the harmonic loop reads of the sample. \<open>h_cosorbphs\<close> is assigned in the source
  only when \<open>mich\<close> holds and read only then.
\<close>

record harm_ctx =
  h_e :: real
  h_Phi :: real
  h_nu :: real
  h_gimdot :: real
  h_Amp :: real
  h_Ldotn :: real
  h_Ldotn2 :: real
  h_cos2gam :: real
  h_sin2gam :: real
  h_sinqS :: real
  h_cosorbphs :: real
  h_rot :: "real list"
  h_F :: antenna_out

text \<open>
  Lines 244 to 323. \<open>abs\<close> on the \<open>double\<close> \<open>OmegaPhi\<close> is read as the absolute value
  of the real number. Square roots and \<open>pow\<close> are taken where C has them; on a negative
  argument, where C gives NaN, the real functions give some number, and no statement
  below depends on it.
\<close>

definition sample_ctx :: "env \<Rightarrow> geometry \<Rightarrow> bool \<Rightarrow> real \<Rightarrow> spline_pars \<Rightarrow> harm_ctx" where
  "sample_ctx ev g mich t p =
     (let qS_c = clamp_colat (qS g); qK_c = clamp_colat (qK g);
          cosqS = cos qS_c; sinqS = sin qS_c; cosqK = cos qK_c; sinqK = sin qK_c;
          cosphiK = cos (phiK g); sinphiK = sin (phiK g);
          mu_sec = mu g * MTSUN_SI ev;
          zeta = mu_sec / dist g / GPCINSEC ev;
          lam = clamp_lam (lam_v p);
          alp = alp_v p;
          coslam = cos lam; sinlam = sin lam; cosalp = cos alp; sinalp = sin alp;
          cosqL = cosqK * coslam + sinqK * sinlam * cosalp;
          sinqL = sqrt (1 - cosqL * cosqL);
          phiLup = sinqK * sinphiK * coslam - cosphiK * sinlam * sinalp
                     - cosqK * sinphiK * sinlam * cosalp;
          phiLdown = sinqK * cosphiK * coslam + sinphiK * sinlam * sinalp
                     - cosqK * cosphiK * sinlam * cosalp;
          phiL = atan2 phiLup phiLdown;
          Ldotn = cosqL * cosqS + sinqL * sinqS * cos (phiL - phiS g);
          Ldotn2 = Ldotn * Ldotn;
          Sdotn = cosqK * cosqS + sinqK * sinqS * cos (phiK g - phiS g);
          beta = (if S_phys g = 0 then 0
                  else (let betaup = - Sdotn + coslam * Ldotn;
                            betadown = sinqS * sin (phiK g - phiS g) * sinlam * cosalp
                                       + (cosqK * Sdotn - cosqS) / sinqK * sinlam * sinalp
                        in atan2 betaup betadown));
          gam = 2 * (gim_v p + beta);
          cos2gam = cos gam;
          sin2gam = sin gam;
          F = antenna ev mich t qS_c (phiS g) qK_c (phiK g);
          Amp = (\<bar>OmegaPhi_v p\<bar> * M_phys g * MTSUN_SI ev) powr (2 / 3) * zeta;
          r = d_RotCoeff lam qS_c (phiS g) qK_c (phiK g) alp
      in \<lparr>h_e = e_v p, h_Phi = Phi_v p, h_nu = nu_v p, h_gimdot = gimdot_v p, h_Amp = Amp,
          h_Ldotn = Ldotn, h_Ldotn2 = Ldotn2, h_cos2gam = cos2gam, h_sin2gam = sin2gam,
          h_sinqS = sinqS, h_cosorbphs = cos (orbphs_at ev t - phiS g),
          h_rot = rot r, h_F = F\<rparr>)"

subsection \<open>One harmonic\<close>

text \<open>Lines 338 to 358, host path: the five Bessel values of harmonic \<open>n\<close>.\<close>

definition bessel5 :: "env \<Rightarrow> int \<Rightarrow> real \<Rightarrow> real \<times> real \<times> real \<times> real \<times> real" where
  "bessel5 ev n e =
     (let ne = real_of_int n * e;
          J0 = (if n = 1 then - 1 * gsl_sf_bessel_J1 ev ne else gsl_sf_bessel_Jn ev (n - 2) ne);
          J1 = gsl_sf_bessel_Jn ev (n - 1) ne;
          J2 = gsl_sf_bessel_Jn ev n ne;
          J3 = gsl_sf_bessel_Jn ev (n + 1) ne;
          J4 = gsl_sf_bessel_Jn ev (n + 2) ne
      in (J0, J1, J2, J3, J4))"

text \<open>Lines 330 to 374: the two polarisation amplitudes after the rotation.\<close>

definition pol_amps :: "env \<Rightarrow> bool \<Rightarrow> harm_ctx \<Rightarrow> int \<Rightarrow> real \<times> real" where
  "pol_amps ev mich cx n =
     (let e = h_e cx; Amp = h_Amp cx; rn = real_of_int n;
          nPhi = (if mich then
                    (let fn = rn * h_nu cx + h_gimdot cx / pi;
                         Doppler = 2 * pi * fn * AUsec ev * h_sinqS cx * h_cosorbphs cx
                     in rn * h_Phi cx + Doppler)
                  else rn * h_Phi cx)
      in case bessel5 ev n e of
           (J0, J1, J2, J3, J4) \<Rightarrow>
             (let a = - rn * Amp * (J0 - 2 * e * J1 + 2 / rn * J2 + 2 * e * J3 - J4) * cos nPhi;
                  b = - rn * Amp * sqrt (1 - e * e) * (J0 - 2 * J2 + J4) * sin nPhi;
                  c = 2 * Amp * J2 * cos nPhi;
                  Aplus = - (1 + h_Ldotn2 cx) * (a * h_cos2gam cx - b * h_sin2gam cx)
                          + c * (1 - h_Ldotn2 cx);
                  Acros = 2 * h_Ldotn cx * (b * h_cos2gam cx + a * h_sin2gam cx);
                  Aplusold = Aplus;
                  Acrosold = Acros
              in (Aplusold * h_rot cx ! 0 + Acrosold * h_rot cx ! 1,
                  Aplusold * h_rot cx ! 2 + Acrosold * h_rot cx ! 3)))"

text \<open>Lines 377 to 385: the two channel contributions of one harmonic.\<close>

definition channels :: "bool \<Rightarrow> antenna_out \<Rightarrow> real \<Rightarrow> real \<Rightarrow> real \<times> real" where
  "channels mich F Aplus Acros =
     (if mich then
        (halfsqrt3 * (FplusI F * Aplus + FcrosI F * Acros),
         halfsqrt3 * (FplusII F * Aplus + FcrosII F * Acros))
      else
        (FplusI F * Aplus + FcrosI F * Acros,
         FplusII F * Aplus + FcrosII F * Acros))"

definition harmonic :: "env \<Rightarrow> bool \<Rightarrow> harm_ctx \<Rightarrow> int \<Rightarrow> real \<times> real" where
  "harmonic ev mich cx n =
     (case pol_amps ev mich cx n of (Aplus, Acros) \<Rightarrow> channels mich (h_F cx) Aplus Acros)"

text \<open>The loop of line 327, from \<open>n\<close> up to \<open>nmodes\<close>, on the pair \<open>(hItemp, hIItemp)\<close>.\<close>

function harmonic_loop ::
  "env \<Rightarrow> bool \<Rightarrow> harm_ctx \<Rightarrow> int \<Rightarrow> int \<Rightarrow> real \<times> real \<Rightarrow> real \<times> real" where
  "harmonic_loop ev mich cx nmodes n acc =
     (if n \<le> nmodes then
        (case harmonic ev mich cx n of
           (hnI, hnII) \<Rightarrow>
             harmonic_loop ev mich cx nmodes (n + 1) (fst acc + hnI, snd acc + hnII))
      else acc)"
  by pat_completeness auto
termination
  by (relation "measure (\<lambda>(ev, mich, cx, nmodes, n, acc). nat (nmodes + 1 - n))") auto

declare harmonic_loop.simps [simp del]

text \<open>The value the kernel leaves in \<open>waveform[i]\<close> at line 391.\<close>

definition sample_value ::
  "env \<Rightarrow> geometry \<Rightarrow> int \<Rightarrow> bool \<Rightarrow> real option list \<Rightarrow> real option list \<Rightarrow> int list
     \<Rightarrow> real \<Rightarrow> int \<Rightarrow> int \<Rightarrow> error + complex" where
  "sample_value ev g nmodes mich spline_coeffs start_t interval_inds delta_t init_length i =
     (case sample_pars spline_coeffs start_t interval_inds delta_t init_length i of
        Inl err \<Rightarrow> Inl err
      | Inr p \<Rightarrow>
          (let t = delta_t * real_of_int i;
               cx = sample_ctx ev g mich t p
           in case harmonic_loop ev mich cx nmodes 1 (0, 0) of
                (hItemp, hIItemp) \<Rightarrow> Inr (Complex hItemp (- hIItemp))))"

subsection \<open>The output buffer and the kernel\<close>

text \<open>
  The caller's buffer, with the sequence of stores made into it: each assignment to
  \<open>waveform[i]\<close> appends the index and the value stored.
\<close>

record outbuf =
  cells :: "complex list"
  stores :: "(int \<times> complex) list"

definition store :: "outbuf \<Rightarrow> int \<Rightarrow> complex \<Rightarrow> error + outbuf" where
  "store b i v =
     (case wr (cells b) i v of
        Inl err \<Rightarrow> Inl err
      | Inr cs \<Rightarrow> Inr \<lparr>cells = cs, stores = stores b @ [(i, v)]\<rparr>)"

text \<open>
  The sample loop of line 164 on the host path (\<open>start = 0\<close>, \<open>increment = 1\<close>). A
  fault leaves the buffer as it was when the fault happened.
\<close>

function make_waveform_loop ::
  "env \<Rightarrow> geometry \<Rightarrow> int \<Rightarrow> bool \<Rightarrow> real option list \<Rightarrow> real option list \<Rightarrow> int list
     \<Rightarrow> real \<Rightarrow> int \<Rightarrow> int \<Rightarrow> int \<Rightarrow> outbuf \<Rightarrow> error option \<times> outbuf" where
  "make_waveform_loop ev g nmodes mich spline_coeffs start_t interval_inds delta_t init_length
       end_i i b =
     (if i < end_i then
        (case store b i (Complex 0 0) of
           Inl err \<Rightarrow> (Some err, b)
         | Inr b1 \<Rightarrow>
             (case sample_value ev g nmodes mich spline_coeffs start_t interval_inds delta_t
                     init_length i of
                Inl err \<Rightarrow> (Some err, b1)
              | Inr v \<Rightarrow>
                  (case store b1 i v of
                     Inl err \<Rightarrow> (Some err, b1)
                   | Inr b2 \<Rightarrow>
                       make_waveform_loop ev g nmodes mich spline_coeffs start_t interval_inds
                         delta_t init_length end_i (i + 1) b2)))
      else (None, b))"
  by pat_completeness auto
termination
  by (relation "measure (\<lambda>(ev, g, nmodes, mich, sc, st, ii, dt, il, end_i, i, b). nat (end_i - i))")
     auto

declare make_waveform_loop.simps [simp del]

definition make_waveform ::
  "env \<Rightarrow> outbuf \<Rightarrow> real list \<Rightarrow> geometry \<Rightarrow> int \<Rightarrow> bool \<Rightarrow> real \<Rightarrow> real list \<Rightarrow> int list
     \<Rightarrow> int \<Rightarrow> int \<Rightarrow> error option \<times> outbuf" where
  "make_waveform ev waveform interp_array g nmodes mich delta_t start_t_all interval_inds
       data_length init_length =
     (case stage 0 (4 * NUM_PARS * init_length) interp_array
             (replicate (nat (NUM_PARS * 4 * MAX_SPLINE_POINTS)) None) of
        Inl err \<Rightarrow> (Some err, waveform)
      | Inr spline_coeffs \<Rightarrow>
          (case stage 0 init_length start_t_all (replicate (nat MAX_SPLINE_POINTS) None) of
             Inl err \<Rightarrow> (Some err, waveform)
           | Inr start_t \<Rightarrow>
               make_waveform_loop ev g nmodes mich spline_coeffs start_t interval_inds delta_t
                 init_length data_length 0 waveform))"

subsection \<open>The entry point\<close>

text \<open>The \<open>%d\<close> conversion of \<open>sprintf\<close>.\<close>

definition digit_char :: "nat \<Rightarrow> char" where
  "digit_char n = ''0123456789'' ! n"

function show_nat :: "nat \<Rightarrow> string" where
  "show_nat n = (if n < 10 then [digit_char n] else show_nat (n div 10) @ [digit_char (n mod 10)])"
  by pat_completeness auto
termination
  by (relation "measure id") auto

declare show_nat.simps [simp del]

definition show_int :: "int \<Rightarrow> string" where
  "show_int k = (if k < 0 then CHR ''-'' # show_nat (nat (- k)) else show_nat (nat k))"

text \<open>
  Modelled from the spec: \<open>throw_python_error\<close> is declared in \<open>Utility.hh\<close>, which is
  not among the sources. The specification has the call report a configuration error
  with the message to the caller and abort, so that nothing after it runs.
\<close>

definition throw_python_error :: "string \<Rightarrow> int \<Rightarrow> error" where
  "throw_python_error str status = ConfigError str status"

definition length_message :: "int \<Rightarrow> string" where
  "length_message init_len =
     ''Initial length is greater than the number of maximum allowable spline points: ''
       @ show_int init_len @ '' > '' @ show_int MAX_SPLINE_POINTS"

definition get_waveform ::
  "env \<Rightarrow> outbuf \<Rightarrow> real list \<Rightarrow> geometry \<Rightarrow> int \<Rightarrow> bool \<Rightarrow> int \<Rightarrow> int \<Rightarrow> real \<Rightarrow> real list
     \<Rightarrow> int list \<Rightarrow> error option \<times> outbuf" where
  "get_waveform ev waveform interp_array g nmodes mich init_len out_len delta_t t interval_inds =
     (if init_len > MAX_SPLINE_POINTS then
        (Some (throw_python_error (length_message init_len) 23), waveform)
      else
        make_waveform ev waveform interp_array g nmodes mich delta_t t interval_inds
          out_len init_len)"

subsection \<open>Notions the properties are stated with\<close>

text \<open>
  The cubic of the specification for one parameter of one segment: \<open>value + c1 x + c2 x\<^sup>2
  + c3 x\<^sup>3\<close>, the coefficient of order \<open>k\<close> taken from the flat buffer at
  \<open>(k * init_length + segment) * 8 + parameter\<close>.
\<close>

definition spec_cubic :: "real list \<Rightarrow> int \<Rightarrow> int \<Rightarrow> int \<Rightarrow> real \<Rightarrow> real" where
  "spec_cubic interp_array init_length segment parameter x =
     interp_array ! nat ((0 * init_length + segment) * 8 + parameter)
     + interp_array ! nat ((1 * init_length + segment) * 8 + parameter) * x
     + interp_array ! nat ((2 * init_length + segment) * 8 + parameter) * x ^ 2
     + interp_array ! nat ((3 * init_length + segment) * 8 + parameter) * x ^ 3"

text \<open>
  The input buffers of a call hold what the kernel reads: the local arrays take the
  segments, the coefficient buffer has four coefficients of eight parameters per
  segment, there is a knot time per segment and a map entry per sample, and every map
  entry is a segment index. \<open>output_fits\<close> says that the output buffer has a cell per
  sample.
\<close>

definition inputs_fit ::
  "real list \<Rightarrow> real list \<Rightarrow> int list \<Rightarrow> int \<Rightarrow> int \<Rightarrow> bool" where
  "inputs_fit interp_array start_t_all interval_inds data_length init_length =
     (init_length \<le> MAX_SPLINE_POINTS
      \<and> 4 * NUM_PARS * init_length \<le> int (length interp_array)
      \<and> init_length \<le> int (length start_t_all)
      \<and> data_length \<le> int (length interval_inds)
      \<and> (\<forall>i \<in> {0 ..< nat data_length}.
            0 \<le> interval_inds ! i \<and> interval_inds ! i < init_length))"

definition output_fits :: "outbuf \<Rightarrow> int \<Rightarrow> bool" where
  "output_fits waveform data_length = (data_length \<le> int (length (cells waveform)))"

text \<open>The values stored into cell \<open>i\<close> of the buffer, in the order of the stores.\<close>

definition writes_to :: "outbuf \<Rightarrow> int \<Rightarrow> complex list" where
  "writes_to b i = map snd (filter (\<lambda>p. fst p = i) (stores b))"

text \<open>
  A small call used to run the statements: one segment, two samples, and the coefficient
  buffer holding its own indices \<open>0\<close> to \<open>31\<close>.
\<close>

definition example_env :: env where
  "example_env =
     \<lparr>MTSUN_SI = 1, GPCINSEC = 1, YRSID_SI = 1, AUsec = 1,
      gsl_sf_bessel_J1 = (\<lambda>x. 0), gsl_sf_bessel_Jn = (\<lambda>n x. 0)\<rparr>"

definition example_geometry :: geometry where
  "example_geometry =
     \<lparr>M_phys = 1, S_phys = 0, mu = 1, qS = 1, phiS = 0, qK = 1, phiK = 0, dist = 1\<rparr>"

definition example_waveform :: outbuf where
  "example_waveform = \<lparr>cells = [Complex 5 5, Complex 5 5], stores = []\<rparr>"

definition example_interp :: "real list" where
  "example_interp = map real [0 ..< 32]"

text \<open>
  A library stand-in whose values tell the order and the argument of a call apart, and a
  harmonic context at phase zero with the identity rotation, to run one harmonic.
\<close>

definition probe_env :: env where
  "probe_env =
     \<lparr>MTSUN_SI = 1, GPCINSEC = 1, YRSID_SI = 1, AUsec = 1,
      gsl_sf_bessel_J1 = (\<lambda>x. 7 + x), gsl_sf_bessel_Jn = (\<lambda>k x. real_of_int k + x)\<rparr>"

definition probe_ctx :: harm_ctx where
  "probe_ctx =
     \<lparr>h_e = 1 / 2, h_Phi = 0, h_nu = 0, h_gimdot = 0, h_Amp = 1, h_Ldotn = 0, h_Ldotn2 = 0,
      h_cos2gam = 1, h_sin2gam = 0, h_sinqS = 0, h_cosorbphs = 0, h_rot = [1, 0, 0, 1],
      h_F = \<lparr>FplusI = 1, FcrosI = 0, FplusII = 0, FcrosII = 1\<rparr>\<rparr>"

section \<open>Properties\<close>

subsection \<open>Rotation coefficients\<close>

lemma lagrange_cross:
  fixes n0 n1 n2 l0 l1 l2 s0 s1 s2 :: real
  defines "u0 \<equiv> n1 * l2 - n2 * l1" and "u1 \<equiv> n2 * l0 - n0 * l2" and "u2 \<equiv> n0 * l1 - n1 * l0"
    and "v0 \<equiv> n1 * s2 - n2 * s1" and "v1 \<equiv> n2 * s0 - n0 * s2" and "v2 \<equiv> n0 * s1 - n1 * s0"
  shows "4 * (u0 * u0 + u1 * u1 + u2 * u2) * (v0 * v0 + v1 * v1 + v2 * v2)
         = 4 * (u0 * v0 + u1 * v1 + u2 * v2)\<^sup>2
           + ((l0 * v0 + l1 * v1 + l2 * v2) - (s0 * u0 + s1 * u1 + s2 * u2))\<^sup>2
               * (n0 * n0 + n1 * n1 + n2 * n2)"
  unfolding u0_def u1_def u2_def v0_def v1_def v2_def
  by (simp add: power2_eq_square algebra_simps)

lemma unit_vector_abstract:
  fixes st ct sp cp :: real
  assumes p: "sp * sp + cp * cp = 1" and t: "st * st + ct * ct = 1"
  shows "(st * cp) * (st * cp) + (st * sp) * (st * sp) + ct * ct = 1"
proof -
  have "(st * cp) * (st * cp) + (st * sp) * (st * sp) + ct * ct
      = st * st * (sp * sp + cp * cp) + ct * ct"
    by (simp add: algebra_simps)
  also have "\<dots> = 1" unfolding p using t by simp
  finally show ?thesis .
qed

lemma unit_sky:
  "(sin t * cos p) * (sin t * cos p) + (sin t * sin p) * (sin t * sin p) + cos t * cos t = (1::real)"
proof (rule unit_vector_abstract)
  show "sin p * sin p + cos p * cos p = 1"
    using sin_cos_squared_add [of p] by (simp only: power2_eq_square)
  show "sin t * sin t + cos t * cos t = 1"
    using sin_cos_squared_add [of t] by (simp only: power2_eq_square)
qed

lemma double_angle_unit:
  fixes d q N :: real
  assumes N: "0 < N" and id: "4 * (N * N) = 4 * d\<^sup>2 + q\<^sup>2"
  shows "(2 * (d / N) * (d / N) - 1)\<^sup>2 + ((d / N) * (q / N))\<^sup>2 = 1"
proof -
  define c where "c = d / N"
  define s where "s = q / N"
  have "4 * c\<^sup>2 + s\<^sup>2 = (4 * d\<^sup>2 + q\<^sup>2) / (N * N)"
    by (simp add: c_def s_def power2_eq_square add_divide_distrib)
  also have "\<dots> = 4" using N by (simp add: id [symmetric])
  finally have cs: "s\<^sup>2 = 4 - 4 * c\<^sup>2" by simp
  have "(2 * c * c - 1)\<^sup>2 + (c * s)\<^sup>2 = (2 * c\<^sup>2 - 1)\<^sup>2 + c\<^sup>2 * s\<^sup>2"
    by (simp add: power2_eq_square algebra_simps)
  also have "\<dots> = 1" unfolding cs by (simp add: power2_eq_square algebra_simps)
  finally show ?thesis unfolding c_def s_def .
qed

lemma cross_norm_identity:
  fixes n L S :: "real list"
  assumes unit: "n ! 0 * n ! 0 + n ! 1 * n ! 1 + n ! 2 * n ! 2 = 1"
  shows "4 * ((d_vec_norm (d_cross n L) * d_vec_norm (d_cross n S))
              * (d_vec_norm (d_cross n L) * d_vec_norm (d_cross n S)))
         = 4 * (d_dot_product (d_cross n L) (d_cross n S))\<^sup>2
           + (d_dot_product L (d_cross n S) - d_dot_product S (d_cross n L))\<^sup>2"
proof -
  have sq: "d_vec_norm u * d_vec_norm u = u ! 0 * u ! 0 + u ! 1 * u ! 1 + u ! 2 * u ! 2" for u
    unfolding d_vec_norm_def by simp
  have "4 * ((d_vec_norm (d_cross n L) * d_vec_norm (d_cross n S))
              * (d_vec_norm (d_cross n L) * d_vec_norm (d_cross n S)))
        = 4 * (d_vec_norm (d_cross n L) * d_vec_norm (d_cross n L))
            * (d_vec_norm (d_cross n S) * d_vec_norm (d_cross n S))"
    by simp
  also have "\<dots> = 4 * (d_dot_product (d_cross n L) (d_cross n S))\<^sup>2
           + (d_dot_product L (d_cross n S) - d_dot_product S (d_cross n L))\<^sup>2
             * (n ! 0 * n ! 0 + n ! 1 * n ! 1 + n ! 2 * n ! 2)"
    unfolding sq unfolding d_cross_def d_dot_product_def
    using lagrange_cross [of "n ! 1" "L ! 2" "n ! 2" "L ! 1" "L ! 0" "n ! 0" "S ! 2" "S ! 1" "S ! 0"]
    by simp
  finally show ?thesis unfolding unit by simp
qed

text \<open>
  C2. Whenever the product of the norms of \<open>n \<times> L\<close> and \<open>n \<times> S\<close> is at least the floor
  \<open>1e-6\<close>, so that the floor of line 52 is not engaged, the first two rotation
  coefficients satisfy \<open>rot[0]\<^sup>2 + rot[1]\<^sup>2 = 1\<close>. The line of sight \<open>n\<close> is a unit
  vector, \<open>sinrot\<close> is twice the sine of the angle between the two planes, and in exact
  arithmetic the sum is exactly one.
\<close>

theorem rot_unit_above_floor:
  fixes iota theta_S phi_S theta_K phi_K alpha :: real
  defines "r \<equiv> d_RotCoeff iota theta_S phi_S theta_K phi_K alpha"
  assumes nf: "norm_floor \<le> d_vec_norm (nxL r) * d_vec_norm (nxS r)"
  shows "(rot r ! 0)\<^sup>2 + (rot r ! 1)\<^sup>2 = 1"
proof -
  define n where "n = [sin theta_S * cos phi_S, sin theta_S * sin phi_S, cos theta_S]"
  define N where "N = d_vec_norm (d_cross n (L_vec r)) * d_vec_norm (d_cross n (S_vec r))"
  define d where "d = d_dot_product (d_cross n (L_vec r)) (d_cross n (S_vec r))"
  define q where "q = d_dot_product (L_vec r) (d_cross n (S_vec r))
                      - d_dot_product (S_vec r) (d_cross n (L_vec r))"
  have nxL: "nxL r = d_cross n (L_vec r)" and nxS: "nxS r = d_cross n (S_vec r)"
    by (simp_all add: r_def n_def d_RotCoeff_def Let_def)
  have unit: "n ! 0 * n ! 0 + n ! 1 * n ! 1 + n ! 2 * n ! 2 = 1"
    unfolding n_def using unit_sky [of theta_S phi_S] by simp
  have nf': "norm_floor \<le> N" using nf by (simp add: N_def nxL nxS)
  have Npos: "0 < N"
  proof -
    have "(0::real) < norm_floor" by (simp add: norm_floor_def)
    with nf' show ?thesis by linarith
  qed
  have id: "4 * (N * N) = 4 * d\<^sup>2 + q\<^sup>2"
    unfolding N_def d_def q_def by (rule cross_norm_identity [OF unit])
  have r0: "rot r ! 0 = 2 * (d / N) * (d / N) - 1"
    using nf' by (simp add: r_def n_def N_def d_def d_RotCoeff_def Let_def)
  have r1: "rot r ! 1 = (d / N) * (q / N)"
    using nf' by (simp add: r_def n_def N_def d_def q_def d_RotCoeff_def Let_def)
  show ?thesis unfolding r0 r1 by (rule double_angle_unit [OF Npos id])
qed

theorem rot_unit_above_floor_witness:
  "norm_floor \<le> d_vec_norm (nxL (d_RotCoeff 0 0 0 (pi / 2) 0 0))
                  * d_vec_norm (nxS (d_RotCoeff 0 0 0 (pi / 2) 0 0))
   \<and> (rot (d_RotCoeff 0 0 0 (pi / 2) 0 0) ! 0)\<^sup>2
       + (rot (d_RotCoeff 0 0 0 (pi / 2) 0 0) ! 1)\<^sup>2 = 1"
proof -
  have h: "norm_floor \<le> d_vec_norm (nxL (d_RotCoeff 0 0 0 (pi / 2) 0 0))
                          * d_vec_norm (nxS (d_RotCoeff 0 0 0 (pi / 2) 0 0))"
    by (simp add: d_RotCoeff_def Let_def d_cross_def d_vec_norm_def norm_floor_def)
  show ?thesis using h rot_unit_above_floor [OF h] by simp
qed

text \<open>
  C3. For every input, with or without the floor engaged, the rotation coefficients
  satisfy \<open>rot[0] = rot[3]\<close> and \<open>rot[1] = -rot[2]\<close>.
\<close>

theorem rot_symmetry:
  "rot (d_RotCoeff iota theta_S phi_S theta_K phi_K alpha) ! 0
     = rot (d_RotCoeff iota theta_S phi_S theta_K phi_K alpha) ! 3
   \<and> rot (d_RotCoeff iota theta_S phi_S theta_K phi_K alpha) ! 1
     = - rot (d_RotCoeff iota theta_S phi_S theta_K phi_K alpha) ! 2"
  by (simp add: d_RotCoeff_def Let_def)

subsection \<open>Spline-segment locator\<close>

text \<open>One turn of the loop, read off a run that returned.\<close>

lemma loop_cases [consumes 1, case_names exit brk step]:
  assumes run: "find_start_inds_loop i st t_arr delta_t new_length T = Inr (st', k)"
  obtains
    (exit) "\<not> i < length_val st" "st' = st" "k = i"
  | (brk) si ul where "i < length_val st" "\<not> t_arr ! nat i < T"
      "1 \<le> i" "i < int (length t_arr)" "i < int (length (start_inds st))"
      "i - 1 < int (length (unit_length st))"
      "si = (start_inds st)[nat i := new_length]"
      "ul = (unit_length st)[nat (i - 1) := new_length - si ! nat (i - 1)]"
      "st' = st\<lparr>start_inds := si, unit_length := ul\<rparr>" "k = i"
  | (step) si ul where "i < length_val st" "t_arr ! nat i < T"
      "1 \<le> i" "i < int (length t_arr)" "i < int (length (start_inds st))"
      "i - 1 < int (length (unit_length st))"
      "si = (start_inds st)[nat i := \<lceil>t_arr ! nat i / delta_t\<rceil>]"
      "ul = (unit_length st)[nat (i - 1) := si ! nat i - si ! nat (i - 1)]"
      "find_start_inds_loop (i + 1) (st\<lparr>start_inds := si, unit_length := ul\<rparr>)
         t_arr delta_t new_length T = Inr (st', k)"
proof (cases "i < length_val st")
  case False
  with run have "st' = st \<and> k = i"
    by (subst (asm) find_start_inds_loop.simps) simp
  with False show ?thesis by (intro exit) simp_all
next
  case True
  show ?thesis
  proof (cases "t_arr ! nat i < T")
    case lt: True
    from run True lt show ?thesis
      apply (subst (asm) find_start_inds_loop.simps)
      apply (simp add: rd_def wr_def split: if_splits sum.splits)
      apply (rule step)
      apply simp_all
      done
  next
    case ge: False
    from run True ge show ?thesis
      apply (subst (asm) find_start_inds_loop.simps)
      apply (simp add: rd_def wr_def split: if_splits sum.splits)
      apply (rule brk)
      apply auto
      done
  qed
qed


lemma loop_shape:
  assumes "find_start_inds_loop i st t_arr delta_t new_length T = Inr (st', k)"
  shows "length_val st' = length_val st \<and> length (start_inds st') = length (start_inds st)
         \<and> length (unit_length st') = length (unit_length st) \<and> i \<le> k"
  using assms
proof (induction "nat (length_val st - i)" arbitrary: i st rule: less_induct)
  case less
  from less.prems show ?case
  proof (cases rule: loop_cases)
    case exit
    then show ?thesis by simp
  next
    case (brk si ul)
    then show ?thesis by simp
  next
    case (step si ul)
    have "nat (length_val (st\<lparr>start_inds := si, unit_length := ul\<rparr>) - (i + 1))
            < nat (length_val st - i)"
      using step(1) by simp
    from less.hyps [OF this step(9)] step(7,8) show ?thesis by simp
  qed
qed

lemma loop_frame:
  assumes "find_start_inds_loop i st t_arr delta_t new_length T = Inr (st', k)"
  shows "(\<forall>j < nat i. start_inds st' ! j = start_inds st ! j)
         \<and> (\<forall>j < nat (i - 1). unit_length st' ! j = unit_length st ! j)"
  using assms
proof (induction "nat (length_val st - i)" arbitrary: i st rule: less_induct)
  case less
  from less.prems show ?case
  proof (cases rule: loop_cases)
    case exit
    then show ?thesis by simp
  next
    case (brk si ul)
    then show ?thesis by simp
  next
    case (step si ul)
    have "nat (length_val (st\<lparr>start_inds := si, unit_length := ul\<rparr>) - (i + 1))
            < nat (length_val st - i)"
      using step(1) by simp
    from less.hyps [OF this step(9)] step(3,7,8) show ?thesis by auto
  qed
qed

lemma loop_exit_index:
  assumes "find_start_inds_loop i st t_arr delta_t new_length T = Inr (st', k)"
    and "\<forall>j. i \<le> j \<and> j < length_val st \<longrightarrow> t_arr ! nat j < T"
  shows "k = max i (length_val st)"
  using assms
proof (induction "nat (length_val st - i)" arbitrary: i st rule: less_induct)
  case less
  from less.prems(1) show ?case
  proof (cases rule: loop_cases)
    case exit
    then show ?thesis by simp
  next
    case (brk si ul)
    with less.prems(2) show ?thesis by auto
  next
    case (step si ul)
    have "nat (length_val (st\<lparr>start_inds := si, unit_length := ul\<rparr>) - (i + 1))
            < nat (length_val st - i)"
      using step(1) by simp
    from less.hyps [OF this step(9)] less.prems(2) step(1) show ?thesis by auto
  qed
qed

text \<open>The knots met before the exit lie below T and fix the start indices; a break
  stores the output length.\<close>

lemma loop_values:
  assumes "find_start_inds_loop i st t_arr delta_t new_length T = Inr (st', k)"
  shows "(\<forall>j. i \<le> j \<and> j < k \<and> j < length_val st \<longrightarrow>
            t_arr ! nat j < T \<and> start_inds st' ! nat j = \<lceil>t_arr ! nat j / delta_t\<rceil>)
         \<and> (k < length_val st \<longrightarrow> \<not> t_arr ! nat k < T \<and> start_inds st' ! nat k = new_length)"
  using assms
proof (induction "nat (length_val st - i)" arbitrary: i st rule: less_induct)
  case less
  from less.prems(1) show ?case
  proof (cases rule: loop_cases)
    case exit
    then show ?thesis by simp
  next
    case (brk si ul)
    then show ?thesis by simp
  next
    case (step si ul)
    let ?st2 = "st\<lparr>start_inds := si, unit_length := ul\<rparr>"
    have dec: "nat (length_val ?st2 - (i + 1)) < nat (length_val st - i)"
      using step(1) by simp
    have ih: "(\<forall>j. i + 1 \<le> j \<and> j < k \<and> j < length_val st \<longrightarrow>
            t_arr ! nat j < T \<and> start_inds st' ! nat j = \<lceil>t_arr ! nat j / delta_t\<rceil>)
         \<and> (k < length_val st \<longrightarrow> \<not> t_arr ! nat k < T \<and> start_inds st' ! nat k = new_length)"
      using less.hyps [OF dec step(9)] by simp
    have fr: "start_inds st' ! nat i = si ! nat i"
      using loop_frame [OF step(9)] step(3) by simp
    have here: "start_inds st' ! nat i = \<lceil>t_arr ! nat i / delta_t\<rceil>"
      using fr step(3,5,7) by simp
    show ?thesis
    proof (intro conjI allI impI)
      fix j assume j: "i \<le> j \<and> j < k \<and> j < length_val st"
      show "t_arr ! nat j < T"
        using ih j step(2) by (cases "j = i") auto
      show "start_inds st' ! nat j = \<lceil>t_arr ! nat j / delta_t\<rceil>"
        using ih j here by (cases "j = i") auto
    next
      assume "k < length_val st"
      then show "\<not> t_arr ! nat k < T" using ih by simp
    next
      assume "k < length_val st"
      then show "start_inds st' ! nat k = new_length" using ih by simp
    qed
  qed
qed

text \<open>Every length written is the difference of two consecutive start indices.\<close>

lemma loop_differences:
  assumes "find_start_inds_loop i st t_arr delta_t new_length T = Inr (st', k)"
  shows "\<forall>j. i - 1 \<le> j \<and> j < (if k < length_val st then k else k - 1) \<longrightarrow>
            unit_length st' ! nat j = start_inds st' ! nat (j + 1) - start_inds st' ! nat j"
  using assms
proof (induction "nat (length_val st - i)" arbitrary: i st rule: less_induct)
  case less
  from less.prems(1) show ?case
  proof (cases rule: loop_cases)
    case exit
    then show ?thesis by simp
  next
    case (brk si ul)
    have "nat (i - 1 + 1) = nat i" by simp
    moreover have "nat (i - 1) \<noteq> nat i" using brk(3) by simp
    ultimately show ?thesis using brk by (auto simp: nth_list_update)
  next
    case (step si ul)
    let ?st2 = "st\<lparr>start_inds := si, unit_length := ul\<rparr>"
    have dec: "nat (length_val ?st2 - (i + 1)) < nat (length_val st - i)"
      using step(1) by simp
    have ih: "\<forall>j. i \<le> j \<and> j < (if k < length_val st then k else k - 1) \<longrightarrow>
            unit_length st' ! nat j = start_inds st' ! nat (j + 1) - start_inds st' ! nat j"
      using less.hyps [OF dec step(9)] by simp
    have fr: "start_inds st' ! nat i = si ! nat i" "start_inds st' ! nat (i - 1) = si ! nat (i - 1)"
      "unit_length st' ! nat (i - 1) = ul ! nat (i - 1)"
      using loop_frame [OF step(9)] step(3) by simp_all
    have here: "unit_length st' ! nat (i - 1)
                  = start_inds st' ! nat (i - 1 + 1) - start_inds st' ! nat (i - 1)"
      using fr step(3,6,8) by simp
    show ?thesis
    proof (intro allI impI)
      fix j assume j: "i - 1 \<le> j \<and> j < (if k < length_val st then k else k - 1)"
      show "unit_length st' ! nat j = start_inds st' ! nat (j + 1) - start_inds st' ! nat j"
      proof (cases "j = i - 1")
        case True
        then show ?thesis using here by simp
      next
        case False
        with j have "i \<le> j" by simp
        with ih j show ?thesis by simp
      qed
    qed
  qed
qed

lemma telescope:
  fixes ul s :: "int list"
  assumes "\<forall>j < m. ul ! j = s ! (j + 1) - s ! j" and "m \<le> length ul"
  shows "segment_sum ul m = s ! m - s ! 0"
  using assms
proof (induction m)
  case 0
  then show ?case by (simp add: segment_sum_def)
next
  case (Suc m)
  then have "segment_sum ul m = s ! m - s ! 0" by simp
  moreover have "take (Suc m) ul = take m ul @ [ul ! m]"
    using Suc.prems(2) by (simp add: take_Suc_conv_app_nth)
  moreover have "ul ! m = s ! (m + 1) - s ! m" using Suc.prems(1) by simp
  ultimately show ?case by (simp add: segment_sum_def)
qed


lemma loop_succeeds:
  "1 \<le> i \<Longrightarrow> length_val st \<le> int (length (start_inds st))
   \<Longrightarrow> length_val st - 1 \<le> int (length (unit_length st))
   \<Longrightarrow> length_val st \<le> int (length t_arr)
   \<Longrightarrow> \<exists>r. find_start_inds_loop i st t_arr delta_t new_length T = Inr r"
proof (induction i st t_arr delta_t new_length T rule: find_start_inds_loop.induct)
  case (1 i st t_arr delta_t new_length T)
  show ?case
  proof (cases "i < length_val st")
    case False
    then show ?thesis by (subst find_start_inds_loop.simps) simp
  next
    case True
    show ?thesis
    proof (cases "t_arr ! nat i < T")
      case False
      with True "1.prems" show ?thesis
        by (subst find_start_inds_loop.simps) (simp add: rd_def wr_def)
    next
      case lt: True
      define si where "si = (start_inds st)[nat i := \<lceil>t_arr ! nat i / delta_t\<rceil>]"
      define ul where "ul = (unit_length st)[nat (i - 1) := si ! nat i - si ! nat (i - 1)]"
      have "\<exists>r. find_start_inds_loop (i + 1) (st\<lparr>start_inds := si, unit_length := ul\<rparr>)
                  t_arr delta_t new_length T = Inr r"
        apply (rule "1.IH" [of "t_arr ! nat i" si "si ! nat i" "si ! nat (i - 1)" ul])
        using True lt "1.prems" by (simp_all add: rd_def wr_def si_def ul_def)
      with True lt "1.prems" show ?thesis
        by (subst find_start_inds_loop.simps) (simp add: rd_def wr_def si_def ul_def)
    qed
  qed
qed

text \<open>What a run on arrays that fit the knot count returns.\<close>

lemma find_start_inds_run:
  assumes fit: "arrays_fit start_inds0 unit_length0 t_arr length0"
  obtains st i where
    "find_start_inds_loop 1
       \<lparr>start_inds = start_inds0[0 := 0], unit_length = unit_length0, length_val = length0\<rparr>
       t_arr delta_t new_length (window_end delta_t new_length) = Inr (st, i)"
    "find_start_inds start_inds0 unit_length0 t_arr delta_t length0 new_length
       = Inr (st\<lparr>length_val := i + 1\<rparr>)"
proof -
  let ?st0 = "\<lparr>start_inds = start_inds0[0 := 0], unit_length = unit_length0,
               length_val = length0\<rparr>"
  have "\<exists>r. find_start_inds_loop 1 ?st0 t_arr delta_t new_length
               (window_end delta_t new_length) = Inr r"
    using fit by (intro loop_succeeds) (simp_all add: arrays_fit_def)
  then obtain st i where run: "find_start_inds_loop 1 ?st0 t_arr delta_t new_length
               (window_end delta_t new_length) = Inr (st, i)"
    by fastforce
  have "find_start_inds start_inds0 unit_length0 t_arr delta_t length0 new_length
       = Inr (st\<lparr>length_val := i + 1\<rparr>)"
    using fit run by (simp add: find_start_inds_def wr_def arrays_fit_def window_end_def)
  with run show ?thesis by (rule that)
qed

lemma no_truncation_int:
  assumes "no_truncation t_arr delta_t length0 new_length"
  shows "\<forall>j. 1 \<le> j \<and> j < length0 \<longrightarrow> t_arr ! nat j < window_end delta_t new_length"
proof (intro allI impI)
  fix j :: int assume "1 \<le> j \<and> j < length0"
  then have "nat j \<in> {1 ..< nat length0}" by auto
  with assms show "t_arr ! nat j < window_end delta_t new_length"
    unfolding no_truncation_def by blast
qed

lemma ceiling_below_window:
  fixes t delta_t :: real
  assumes "t < window_end delta_t new_length" and "0 < delta_t"
  shows "\<lceil>t / delta_t\<rceil> < new_length"
proof -
  have "t / delta_t < real_of_int (new_length - 1)"
    using assms by (simp add: window_end_def pos_divide_less_eq)
  then have "t / delta_t \<le> real_of_int (new_length - 1)"
    by (rule less_imp_le)
  then have "\<lceil>t / delta_t\<rceil> \<le> new_length - 1"
    by (simp only: ceiling_le_iff)
  then show ?thesis by simp
qed

lemma find_start_inds_example_untruncated:
  "find_start_inds [7, 7] [7] [0, 1] 1 2 10
     = Inr \<lparr>start_inds = [0, 1], unit_length = [1], length_val = 3\<rparr>"
  by (simp add: find_start_inds_def find_start_inds_loop.simps rd_def wr_def)

lemma find_start_inds_example_truncated:
  "find_start_inds [7, 7, 7] [7, 7] [0, 5, 20] 1 3 10
     = Inr \<lparr>start_inds = [0, 5, 10], unit_length = [5, 5], length_val = 3\<rparr>"
  by (simp add: find_start_inds_def find_start_inds_loop.simps rd_def wr_def)


lemma example_knots_untruncated: "no_truncation [0, 1] 1 2 10"
  by (auto simp: no_truncation_def window_end_def nth_Cons split: nat.splits)

lemma example_knots_truncated: "\<not> no_truncation [0, 5, 20] 1 3 10"
proof -
  have "(2::nat) \<in> {1 ..< nat 3}" by simp
  moreover have "\<not> [0, 5, 20 :: real] ! 2 < window_end 1 10"
    by (simp add: window_end_def)
  ultimately show ?thesis unfolding no_truncation_def by blast
qed

text \<open>
  C4, as amended. On arrays that fit the knot count and with a positive sample spacing
  the locator returns. When no knot of index \<open>1\<close> to \<open>length - 1\<close> reaches the end of the
  window (no truncation), the \<open>length - 1\<close> segment lengths sum to the start index of the
  last knot, which for two knots or more is the ceiling of its time over the spacing and
  is strictly below the output sample count. When a knot reaches the end of the window,
  the lengths up to the clipped segment sum to exactly the output sample count.
\<close>

theorem segment_lengths_sum:
  assumes fit: "arrays_fit start_inds0 unit_length0 t_arr length0"
    and dt: "0 < delta_t"
  shows "\<exists>st. find_start_inds start_inds0 unit_length0 t_arr delta_t length0 new_length = Inr st
      \<and> (no_truncation t_arr delta_t length0 new_length \<longrightarrow>
            segment_sum (unit_length st) (nat (length0 - 1)) = start_inds st ! nat (length0 - 1)
            \<and> (2 \<le> length0 \<longrightarrow>
                  start_inds st ! nat (length0 - 1) = \<lceil>t_arr ! nat (length0 - 1) / delta_t\<rceil>
                  \<and> segment_sum (unit_length st) (nat (length0 - 1)) < new_length))
      \<and> (\<not> no_truncation t_arr delta_t length0 new_length \<longrightarrow>
            segment_sum (unit_length st) (nat (length_val st - 1)) = new_length)"
proof -
  let ?T = "window_end delta_t new_length"
  from fit obtain st i where
    run: "find_start_inds_loop 1
       \<lparr>start_inds = start_inds0[0 := 0], unit_length = unit_length0, length_val = length0\<rparr>
       t_arr delta_t new_length ?T = Inr (st, i)"
    and res: "find_start_inds start_inds0 unit_length0 t_arr delta_t length0 new_length
       = Inr (st\<lparr>length_val := i + 1\<rparr>)"
    by (rule find_start_inds_run)
  let ?res = "st\<lparr>length_val := i + 1\<rparr>"
  have shape: "length (unit_length st) = length unit_length0" "1 \<le> i"
    using loop_shape [OF run] by simp_all
  have zero: "start_inds st ! 0 = 0"
    using loop_frame [OF run] fit by (simp add: arrays_fit_def)
  have diffs: "\<forall>j. 0 \<le> j \<and> j < (if i < length0 then i else i - 1) \<longrightarrow>
      unit_length st ! nat j = start_inds st ! nat (j + 1) - start_inds st ! nat j"
    using loop_differences [OF run] by simp
  have vals: "\<forall>j. 1 \<le> j \<and> j < i \<and> j < length0 \<longrightarrow>
      t_arr ! nat j < ?T \<and> start_inds st ! nat j = \<lceil>t_arr ! nat j / delta_t\<rceil>"
    and brk: "i < length0 \<longrightarrow> \<not> t_arr ! nat i < ?T \<and> start_inds st ! nat i = new_length"
    using loop_values [OF run] by simp_all
  have sum_upto: "segment_sum (unit_length st) m = start_inds st ! m"
    if m: "int m \<le> (if i < length0 then i else i - 1)" and fits: "m \<le> length unit_length0" for m
  proof -
    have "\<forall>j < m. unit_length st ! j = start_inds st ! (j + 1) - start_inds st ! j"
    proof (intro allI impI)
      fix j assume "j < m"
      with m have "0 \<le> int j \<and> int j < (if i < length0 then i else i - 1)" by simp
      with diffs have "unit_length st ! nat (int j)
                         = start_inds st ! nat (int j + 1) - start_inds st ! nat (int j)"
        by blast
      moreover have "nat (int j + 1) = j + 1" by simp
      ultimately show "unit_length st ! j = start_inds st ! (j + 1) - start_inds st ! j"
        by simp
    qed
    from telescope [OF this] fits shape(1) zero show ?thesis by simp
  qed
  have untruncated: "segment_sum (unit_length st) (nat (length0 - 1)) = start_inds st ! nat (length0 - 1)
            \<and> (2 \<le> length0 \<longrightarrow>
                  start_inds st ! nat (length0 - 1) = \<lceil>t_arr ! nat (length0 - 1) / delta_t\<rceil>
                  \<and> segment_sum (unit_length st) (nat (length0 - 1)) < new_length)"
    if nt: "no_truncation t_arr delta_t length0 new_length"
  proof -
    have i: "i = max 1 length0"
      using loop_exit_index [OF run] no_truncation_int [OF nt] by simp
    have s: "segment_sum (unit_length st) (nat (length0 - 1)) = start_inds st ! nat (length0 - 1)"
      using fit i by (intro sum_upto) (auto simp: arrays_fit_def)
    have "start_inds st ! nat (length0 - 1) = \<lceil>t_arr ! nat (length0 - 1) / delta_t\<rceil>
          \<and> segment_sum (unit_length st) (nat (length0 - 1)) < new_length"
      if two: "2 \<le> length0"
    proof -
      have "1 \<le> length0 - 1 \<and> length0 - 1 < i \<and> length0 - 1 < length0"
        using two i by simp
      with vals have v: "t_arr ! nat (length0 - 1) < ?T"
        "start_inds st ! nat (length0 - 1) = \<lceil>t_arr ! nat (length0 - 1) / delta_t\<rceil>"
        by blast+
      from ceiling_below_window [OF v(1) dt] v(2) s show ?thesis by simp
    qed
    with s show ?thesis by blast
  qed
  have truncated: "segment_sum (unit_length st) (nat (length_val ?res - 1)) = new_length"
    if tr: "\<not> no_truncation t_arr delta_t length0 new_length"
  proof -
    have lt: "i < length0"
    proof (rule ccontr)
      assume "\<not> i < length0"
      with vals have below: "\<forall>j. 1 \<le> j \<and> j < length0 \<longrightarrow> t_arr ! nat j < ?T" by auto
      have "no_truncation t_arr delta_t length0 new_length"
        unfolding no_truncation_def
      proof
        fix k assume "k \<in> {1 ..< nat length0}"
        then have "1 \<le> int k \<and> int k < length0" by auto
        with below have "t_arr ! nat (int k) < ?T" by blast
        then show "t_arr ! k < ?T" by simp
      qed
      with tr show False by contradiction
    qed
    have "segment_sum (unit_length st) (nat i) = start_inds st ! nat i"
      using fit lt shape(2) by (intro sum_upto) (auto simp: arrays_fit_def)
    with brk lt show ?thesis by simp
  qed
  from res untruncated truncated show ?thesis by auto
qed

theorem segment_lengths_sum_witness:
  "arrays_fit [7, 7] [7] [0, 1] 2 \<and> (0::real) < 1 \<and> no_truncation [0, 1] 1 2 10
   \<and> (\<exists>st. find_start_inds [7, 7] [7] [0, 1] 1 2 10 = Inr st
         \<and> segment_sum (unit_length st) 1 = start_inds st ! 1
         \<and> start_inds st ! 1 = \<lceil>[0, 1] ! 1 / (1::real)\<rceil>
         \<and> segment_sum (unit_length st) 1 < 10)
   \<and> arrays_fit [7, 7, 7] [7, 7] [0, 5, 20] 3 \<and> \<not> no_truncation [0, 5, 20] 1 3 10
   \<and> (\<exists>st. find_start_inds [7, 7, 7] [7, 7] [0, 5, 20] 1 3 10 = Inr st
         \<and> segment_sum (unit_length st) (nat (length_val st - 1)) = 10)"
proof -
  have fit1: "arrays_fit [7, 7] [7] [0, 1] 2" by (simp add: arrays_fit_def)
  have fit2: "arrays_fit [7, 7, 7] [7, 7] [0, 5, 20] 3" by (simp add: arrays_fit_def)
  have dt: "(0::real) < 1" by simp
  from segment_lengths_sum [OF fit1 dt, of 10] example_knots_untruncated
  have a: "\<exists>st. find_start_inds [7, 7] [7] [0, 1] 1 2 10 = Inr st
         \<and> segment_sum (unit_length st) 1 = start_inds st ! 1
         \<and> start_inds st ! 1 = \<lceil>[0, 1] ! 1 / (1::real)\<rceil>
         \<and> segment_sum (unit_length st) 1 < 10"
    by simp
  from segment_lengths_sum [OF fit2 dt, of 10] example_knots_truncated
  have b: "\<exists>st. find_start_inds [7, 7, 7] [7, 7] [0, 5, 20] 1 3 10 = Inr st
         \<and> segment_sum (unit_length st) (nat (length_val st - 1)) = 10"
    by simp
  from fit1 fit2 dt a b example_knots_untruncated example_knots_truncated
  show ?thesis by simp
qed

text \<open>
  The claim as the specification words it fails: two knots at times \<open>0\<close> and \<open>1\<close>, spacing
  \<open>1\<close> and ten output samples give no truncation and one segment of length \<open>1\<close>.
\<close>

theorem segment_lengths_sum_counterexample:
  "strictly_increasing [0, 1] \<and> (0::real) < 1 \<and> no_truncation [0, 1] 1 2 10
   \<and> find_start_inds [7, 7] [7] [0, 1] 1 2 10
        = Inr \<lparr>start_inds = [0, 1], unit_length = [1], length_val = 3\<rparr>
   \<and> segment_sum [1] 1 \<noteq> 10"
proof -
  have "strictly_increasing [0, 1]"
    by (auto simp: strictly_increasing_def nth_Cons split: nat.splits)
  moreover have "segment_sum [1] 1 \<noteq> 10" by (simp add: segment_sum_def)
  ultimately show ?thesis
    using example_knots_untruncated find_start_inds_example_untruncated by simp
qed

text \<open>
  C10, as amended. On arrays that fit the knot count the locator returns;
  \<open>start_inds[0]\<close> is \<open>0\<close> whatever the knot times are, and the length stored on return
  is \<open>i + 1\<close> for the index \<open>i\<close> with which the loop was left. When no knot from index \<open>1\<close>
  on reaches the end of the window, \<open>i\<close> is the larger of \<open>1\<close> and the knot count, so with at
  least one knot the stored length is the knot count plus one. Otherwise \<open>i\<close> is the
  index of the first knot from index \<open>1\<close> on that reaches the end of the window.
\<close>

theorem find_start_inds_length:
  assumes fit: "arrays_fit start_inds0 unit_length0 t_arr length0"
  shows "\<exists>st i.
      find_start_inds_loop 1
        \<lparr>start_inds = start_inds0[0 := 0], unit_length = unit_length0, length_val = length0\<rparr>
        t_arr delta_t new_length (window_end delta_t new_length) = Inr (st, i)
      \<and> find_start_inds start_inds0 unit_length0 t_arr delta_t length0 new_length
          = Inr (st\<lparr>length_val := i + 1\<rparr>)
      \<and> start_inds st ! 0 = 0
      \<and> (no_truncation t_arr delta_t length0 new_length \<longrightarrow> i = max 1 length0)
      \<and> (1 \<le> length0 \<and> no_truncation t_arr delta_t length0 new_length
           \<longrightarrow> length_val (st\<lparr>length_val := i + 1\<rparr>) = length0 + 1)
      \<and> (\<not> no_truncation t_arr delta_t length0 new_length \<longrightarrow>
            1 \<le> i \<and> i < length0
            \<and> \<not> t_arr ! nat i < window_end delta_t new_length
            \<and> (\<forall>j. 1 \<le> j \<and> j < i \<longrightarrow> t_arr ! nat j < window_end delta_t new_length))"
proof -
  let ?T = "window_end delta_t new_length"
  from fit obtain st i where
    run: "find_start_inds_loop 1
       \<lparr>start_inds = start_inds0[0 := 0], unit_length = unit_length0, length_val = length0\<rparr>
       t_arr delta_t new_length ?T = Inr (st, i)"
    and res: "find_start_inds start_inds0 unit_length0 t_arr delta_t length0 new_length
       = Inr (st\<lparr>length_val := i + 1\<rparr>)"
    by (rule find_start_inds_run)
  have zero: "start_inds st ! 0 = 0"
    using loop_frame [OF run] fit by (simp add: arrays_fit_def)
  have one: "1 \<le> i" using loop_shape [OF run] by simp
  have vals: "\<forall>j. 1 \<le> j \<and> j < i \<and> j < length0 \<longrightarrow> t_arr ! nat j < ?T"
    and brk: "i < length0 \<longrightarrow> \<not> t_arr ! nat i < ?T"
    using loop_values [OF run] by simp_all
  have exit: "i = max 1 length0" if nt: "no_truncation t_arr delta_t length0 new_length"
    using loop_exit_index [OF run] no_truncation_int [OF nt] by simp
  have len1: "length_val (st\<lparr>length_val := i + 1\<rparr>) = length0 + 1"
    if "1 \<le> length0" and nt: "no_truncation t_arr delta_t length0 new_length"
    using exit [OF nt] that(1) by simp
  have trunc: "1 \<le> i \<and> i < length0 \<and> \<not> t_arr ! nat i < ?T
            \<and> (\<forall>j. 1 \<le> j \<and> j < i \<longrightarrow> t_arr ! nat j < ?T)"
    if tr: "\<not> no_truncation t_arr delta_t length0 new_length"
  proof -
    have lt: "i < length0"
    proof (rule ccontr)
      assume "\<not> i < length0"
      with vals have below: "\<forall>j. 1 \<le> j \<and> j < length0 \<longrightarrow> t_arr ! nat j < ?T" by auto
      have "no_truncation t_arr delta_t length0 new_length"
        unfolding no_truncation_def
      proof
        fix k assume "k \<in> {1 ..< nat length0}"
        then have "1 \<le> int k \<and> int k < length0" by auto
        with below have "t_arr ! nat (int k) < ?T" by blast
        then show "t_arr ! k < ?T" by simp
      qed
      with tr show False by contradiction
    qed
    with one brk vals show ?thesis by auto
  qed
  from run res zero exit len1 trunc show ?thesis by blast
qed

theorem find_start_inds_length_witness:
  "arrays_fit [7, 7, 7] [7, 7] [0, 1, 2] 3 \<and> (1::int) \<le> 3 \<and> no_truncation [0, 1, 2] 1 3 10
   \<and> (\<exists>st i.
        find_start_inds_loop 1 \<lparr>start_inds = [7, 7, 7][0 := 0], unit_length = [7, 7], length_val = 3\<rparr>
          [0, 1, 2] 1 10 (window_end 1 10) = Inr (st, i)
        \<and> find_start_inds [7, 7, 7] [7, 7] [0, 1, 2] 1 3 10 = Inr (st\<lparr>length_val := i + 1\<rparr>)
        \<and> start_inds st ! 0 = 0
        \<and> i = 3
        \<and> length_val (st\<lparr>length_val := i + 1\<rparr>) = 3 + 1)
   \<and> arrays_fit [7, 7, 7] [7, 7] [0, 5, 20] 3 \<and> \<not> no_truncation [0, 5, 20] 1 3 10
   \<and> (\<exists>st i.
        find_start_inds_loop 1 \<lparr>start_inds = [7, 7, 7][0 := 0], unit_length = [7, 7], length_val = 3\<rparr>
          [0, 5, 20] 1 10 (window_end 1 10) = Inr (st, i)
        \<and> find_start_inds [7, 7, 7] [7, 7] [0, 5, 20] 1 3 10 = Inr (st\<lparr>length_val := i + 1\<rparr>)
        \<and> start_inds st ! 0 = 0
        \<and> i = 2
        \<and> length_val (st\<lparr>length_val := i + 1\<rparr>) = 3)"
proof -
  have fit1: "arrays_fit [7, 7, 7] [7, 7] [0, 1, 2] 3" by (simp add: arrays_fit_def)
  have fit2: "arrays_fit [7, 7, 7] [7, 7] [0, 5, 20] 3" by (simp add: arrays_fit_def)
  have nt: "no_truncation [0, 1, 2] 1 3 10"
    by (auto simp: no_truncation_def window_end_def nth_Cons split: nat.splits)
  from find_start_inds_length [OF fit1, of 1 10] nt
  have a: "\<exists>st i.
        find_start_inds_loop 1 \<lparr>start_inds = [7, 7, 7][0 := 0], unit_length = [7, 7], length_val = 3\<rparr>
          [0, 1, 2] 1 10 (window_end 1 10) = Inr (st, i)
        \<and> find_start_inds [7, 7, 7] [7, 7] [0, 1, 2] 1 3 10 = Inr (st\<lparr>length_val := i + 1\<rparr>)
        \<and> start_inds st ! 0 = 0
        \<and> i = 3
        \<and> length_val (st\<lparr>length_val := i + 1\<rparr>) = 3 + 1"
    by simp
  from find_start_inds_length [OF fit2, of 1 10] example_knots_truncated
  obtain st i where
    run: "find_start_inds_loop 1 \<lparr>start_inds = [7, 7, 7][0 := 0], unit_length = [7, 7], length_val = 3\<rparr>
          [0, 5, 20] 1 10 (window_end 1 10) = Inr (st, i)"
    and res: "find_start_inds [7, 7, 7] [7, 7] [0, 5, 20] 1 3 10 = Inr (st\<lparr>length_val := i + 1\<rparr>)"
    and zero: "start_inds st ! 0 = 0"
    and rng: "1 \<le> i" "i < 3"
    and out: "\<not> [0, 5, 20] ! nat i < window_end 1 10"
    by blast
  have "i = 2"
  proof (rule ccontr)
    assume "i \<noteq> 2"
    with rng have "i = 1" by simp
    with out show False by (simp add: window_end_def)
  qed
  with run res zero have b: "\<exists>st i.
        find_start_inds_loop 1 \<lparr>start_inds = [7, 7, 7][0 := 0], unit_length = [7, 7], length_val = 3\<rparr>
          [0, 5, 20] 1 10 (window_end 1 10) = Inr (st, i)
        \<and> find_start_inds [7, 7, 7] [7, 7] [0, 5, 20] 1 3 10 = Inr (st\<lparr>length_val := i + 1\<rparr>)
        \<and> start_inds st ! 0 = 0
        \<and> i = 2
        \<and> length_val (st\<lparr>length_val := i + 1\<rparr>) = 3"
    by auto
  from fit1 fit2 nt example_knots_truncated a b show ?thesis by simp
qed

text \<open>
  The claim as the specification words it fails for a knot count of zero: the loop is
  left with \<open>i = 1\<close> and the stored length is \<open>2\<close>, not the knot count plus one.
\<close>

theorem find_start_inds_length_counterexample:
  "arrays_fit [7] [] [] 0 \<and> no_truncation [] 1 0 10
   \<and> find_start_inds [7] [] [] 1 0 10 = Inr \<lparr>start_inds = [0], unit_length = [], length_val = 2\<rparr>
   \<and> (2::int) \<noteq> 0 + 1"
  by (simp add: arrays_fit_def no_truncation_def find_start_inds_def find_start_inds_loop.simps
      wr_def)

subsection \<open>Staging and spline evaluation\<close>

lemma rd_in_range: "0 \<le> i \<Longrightarrow> i < int (length xs) \<Longrightarrow> rd xs i = Inr (xs ! nat i)"
  by (simp add: rd_def)

lemma stage_cases [consumes 1, case_names finish step]:
  assumes "stage i end_i src dst = Inr dst'"
  obtains (finish) "\<not> i < end_i" "dst' = dst"
  | (step) "i < end_i" "0 \<le> i" "i < int (length src)" "i < int (length dst)"
      "stage (i + 1) end_i src (dst[nat i := Some (src ! nat i)]) = Inr dst'"
  using assms
  by (subst (asm) stage.simps) (auto simp: rd_def wr_def split: if_splits sum.splits)

lemma stage_succeeds:
  "0 \<le> i \<Longrightarrow> end_i \<le> int (length src) \<Longrightarrow> end_i \<le> int (length dst)
   \<Longrightarrow> \<exists>dst'. stage i end_i src dst = Inr dst'"
proof (induction "nat (end_i - i)" arbitrary: i dst rule: less_induct)
  case less
  show ?case
  proof (cases "i < end_i")
    case False
    then show ?thesis by (subst stage.simps) simp
  next
    case True
    have "\<exists>dst'. stage (i + 1) end_i src (dst[nat i := Some (src ! nat i)]) = Inr dst'"
      using True less.prems by (intro less.hyps) simp_all
    with True less.prems show ?thesis
      by (subst stage.simps) (simp add: rd_def wr_def)
  qed
qed

lemma stage_result:
  assumes "stage i end_i src dst = Inr dst'"
  shows "length dst' = length dst
         \<and> (\<forall>j. i \<le> j \<and> j < end_i \<longrightarrow> dst' ! nat j = Some (src ! nat j))
         \<and> (\<forall>j. 0 \<le> j \<and> j < i \<longrightarrow> dst' ! nat j = dst ! nat j)"
  using assms
proof (induction "nat (end_i - i)" arbitrary: i dst rule: less_induct)
  case less
  from less.prems show ?case
  proof (cases rule: stage_cases)
    case finish
    then show ?thesis by auto
  next
    case step
    have "nat (end_i - (i + 1)) < nat (end_i - i)" using step(1) by simp
    from less.hyps [OF this step(5)]
    have ih: "length dst' = length dst"
      "\<forall>j. i + 1 \<le> j \<and> j < end_i \<longrightarrow> dst' ! nat j = Some (src ! nat j)"
      "\<forall>j. 0 \<le> j \<and> j < i + 1 \<longrightarrow> dst' ! nat j = dst[nat i := Some (src ! nat i)] ! nat j"
      by simp_all
    have here: "dst' ! nat i = Some (src ! nat i)"
      using ih(3) step(2,4) by simp
    have below: "dst' ! nat j = dst ! nat j" if "0 \<le> j \<and> j < i" for j
    proof -
      from that have "nat i \<noteq> nat j" by arith
      moreover from ih(3) that have "dst' ! nat j = dst[nat i := Some (src ! nat i)] ! nat j"
        by simp
      ultimately show ?thesis by simp
    qed
    have above: "dst' ! nat j = Some (src ! nat j)" if "i \<le> j \<and> j < end_i" for j
      using ih(2) here that by (cases "j = i") auto
    from ih(1) above below show ?thesis by blast
  qed
qed


lemma staged_read:
  assumes st: "stage 0 end_i src dst = Inr dst'" and fits: "end_i \<le> int (length dst)"
    and j: "0 \<le> j" "j < end_i"
  shows "rd_local dst' j = Inr (src ! nat j)"
proof -
  from stage_result [OF st] j have "length dst' = length dst" "dst' ! nat j = Some (src ! nat j)"
    by simp_all
  with fits j show ?thesis by (simp add: rd_local_def rd_def)
qed

text \<open>The two local arrays of a call whose buffers fit.\<close>

lemma staging_succeeds:
  assumes fit: "inputs_fit interp_array start_t_all interval_inds data_length init_length"
  obtains spline_coeffs start_t where
    "stage 0 (4 * NUM_PARS * init_length) interp_array
       (replicate (nat (NUM_PARS * 4 * MAX_SPLINE_POINTS)) None) = Inr spline_coeffs"
    "stage 0 init_length start_t_all (replicate (nat MAX_SPLINE_POINTS) None) = Inr start_t"
proof -
  have "\<exists>d. stage 0 (4 * NUM_PARS * init_length) interp_array
       (replicate (nat (NUM_PARS * 4 * MAX_SPLINE_POINTS)) None) = Inr d"
    using fit by (intro stage_succeeds) (simp_all add: inputs_fit_def NUM_PARS_def MAX_SPLINE_POINTS_def)
  moreover have "\<exists>d. stage 0 init_length start_t_all (replicate (nat MAX_SPLINE_POINTS) None) = Inr d"
    using fit by (intro stage_succeeds) (simp_all add: inputs_fit_def MAX_SPLINE_POINTS_def)
  ultimately show ?thesis using that by blast
qed

lemma coeff_staged:
  assumes fit: "inputs_fit interp_array start_t_all interval_inds data_length init_length"
    and sc: "stage 0 (4 * NUM_PARS * init_length) interp_array
       (replicate (nat (NUM_PARS * 4 * MAX_SPLINE_POINTS)) None) = Inr spline_coeffs"
    and seg: "0 \<le> old_ind" "old_ind < init_length"
    and k: "k = 0 \<or> k = 1 \<or> k = 2 \<or> k = 3"
    and par: "0 \<le> par" "par < 8"
  shows "coeff spline_coeffs init_length old_ind k par
           = Inr (interp_array ! nat ((k * init_length + old_ind) * 8 + par))"
proof -
  have lo: "0 \<le> (k * init_length + old_ind) * 8 + par"
    using k seg par by auto
  have hi: "(k * init_length + old_ind) * 8 + par < 4 * NUM_PARS * init_length"
    using k seg par by (auto simp: NUM_PARS_def)
  have cap: "4 * NUM_PARS * init_length \<le> int (length (replicate (nat (NUM_PARS * 4 * MAX_SPLINE_POINTS)) (None :: real option)))"
    using fit by (simp add: inputs_fit_def NUM_PARS_def MAX_SPLINE_POINTS_def)
  from staged_read [OF sc cap lo hi] show ?thesis
    by (simp add: coeff_def NUM_PARS_def)
qed

lemma spline_value_staged:
  assumes fit: "inputs_fit interp_array start_t_all interval_inds data_length init_length"
    and sc: "stage 0 (4 * NUM_PARS * init_length) interp_array
       (replicate (nat (NUM_PARS * 4 * MAX_SPLINE_POINTS)) None) = Inr spline_coeffs"
    and seg: "0 \<le> old_ind" "old_ind < init_length"
    and par: "0 \<le> par" "par < 8"
  shows "spline_value spline_coeffs init_length old_ind par x
           = Inr (spec_cubic interp_array init_length old_ind par x)"
proof -
  note c = coeff_staged [OF fit sc seg _ par]
  have "coeff spline_coeffs init_length old_ind 0 par
           = Inr (interp_array ! nat ((0 * init_length + old_ind) * 8 + par))"
       "coeff spline_coeffs init_length old_ind 1 par
           = Inr (interp_array ! nat ((1 * init_length + old_ind) * 8 + par))"
       "coeff spline_coeffs init_length old_ind 2 par
           = Inr (interp_array ! nat ((2 * init_length + old_ind) * 8 + par))"
       "coeff spline_coeffs init_length old_ind 3 par
           = Inr (interp_array ! nat ((3 * init_length + old_ind) * 8 + par))"
    by (rule c, simp)+
  then show ?thesis
    by (simp add: spline_value_def spec_cubic_def Let_def power2_eq_square power3_eq_cube)
qed

lemma fit_segment:
  assumes fit: "inputs_fit interp_array start_t_all interval_inds data_length init_length"
    and i: "0 \<le> i" "i < data_length"
  shows "rd interval_inds i = Inr (interval_inds ! nat i)"
    and "0 \<le> interval_inds ! nat i" and "interval_inds ! nat i < init_length"
proof -
  from i have "nat i \<in> {0 ..< nat data_length}" by auto
  with fit show "0 \<le> interval_inds ! nat i" "interval_inds ! nat i < init_length"
    unfolding inputs_fit_def by blast+
  from fit i show "rd interval_inds i = Inr (interval_inds ! nat i)"
    by (simp add: inputs_fit_def rd_def)
qed

lemma sample_pars_staged:
  assumes fit: "inputs_fit interp_array start_t_all interval_inds data_length init_length"
    and sc: "stage 0 (4 * NUM_PARS * init_length) interp_array
       (replicate (nat (NUM_PARS * 4 * MAX_SPLINE_POINTS)) None) = Inr spline_coeffs"
    and st: "stage 0 init_length start_t_all (replicate (nat MAX_SPLINE_POINTS) None) = Inr start_t"
    and i: "0 \<le> i" "i < data_length"
  shows "sample_pars spline_coeffs start_t interval_inds delta_t init_length i =
    (let segment = interval_inds ! nat i;
         x = real_of_int i * delta_t - start_t_all ! nat segment
     in Inr \<lparr>e_v = spec_cubic interp_array init_length segment 0 x,
             Phi_v = spec_cubic interp_array init_length segment 1 x,
             gim_v = spec_cubic interp_array init_length segment 2 x,
             alp_v = spec_cubic interp_array init_length segment 3 x,
             nu_v = spec_cubic interp_array init_length segment 4 x,
             gimdot_v = spec_cubic interp_array init_length segment 5 x,
             OmegaPhi_v = spec_cubic interp_array init_length segment 6 x,
             lam_v = spec_cubic interp_array init_length segment 7 x\<rparr>)"
proof -
  note seg = fit_segment [OF fit i]
  have cap: "init_length \<le> int (length (replicate (nat MAX_SPLINE_POINTS) (None :: real option)))"
    using fit by (simp add: inputs_fit_def MAX_SPLINE_POINTS_def)
  have t0: "rd_local start_t (interval_inds ! nat i) = Inr (start_t_all ! nat (interval_inds ! nat i))"
    by (rule staged_read [OF st cap seg(2,3)])
  note sv = spline_value_staged [OF fit sc seg(2,3)]
  show ?thesis
    by (simp add: sample_pars_def Let_def seg(1) t0 sv mult.commute)
qed


subsection \<open>Faults are the only errors of the kernel\<close>

lemma rd_error: "rd xs i = Inl err \<Longrightarrow> err = MemoryFault"
  by (simp add: rd_def split: if_splits)

lemma wr_error: "wr xs i v = Inl err \<Longrightarrow> err = MemoryFault"
  by (simp add: wr_def split: if_splits)

lemma rd_local_error: "rd_local xs i = Inl err \<Longrightarrow> err = MemoryFault"
  by (auto simp: rd_local_def split: sum.splits option.splits dest: rd_error)

lemma store_error: "store b i v = Inl err \<Longrightarrow> err = MemoryFault"
  by (auto simp: store_def split: sum.splits dest: wr_error)

lemma coeff_error: "coeff sc il oi k par = Inl err \<Longrightarrow> err = MemoryFault"
  by (auto simp: coeff_def dest: rd_local_error)

lemma spline_value_error: "spline_value sc il oi par x = Inl err \<Longrightarrow> err = MemoryFault"
  by (auto simp: spline_value_def Let_def split: sum.splits dest: coeff_error)

lemma sample_pars_error: "sample_pars sc st ii dt il i = Inl err \<Longrightarrow> err = MemoryFault"
  by (auto simp: sample_pars_def Let_def split: sum.splits
      dest: rd_error rd_local_error spline_value_error)

lemma sample_value_error:
  "sample_value ev g nmodes mich sc st ii dt il i = Inl err \<Longrightarrow> err = MemoryFault"
  by (auto simp: sample_value_def Let_def split: sum.splits prod.splits dest: sample_pars_error)

lemma stage_error: "stage i end_i src dst = Inl err \<Longrightarrow> err = MemoryFault"
proof (induction "nat (end_i - i)" arbitrary: i dst rule: less_induct)
  case less
  show ?case
  proof (cases "i < end_i")
    case False
    with less.prems show ?thesis by (subst (asm) stage.simps) simp
  next
    case True
    have dec: "nat (end_i - (i + 1)) < nat (end_i - i)" using True by simp
    from less.prems True show ?thesis
      by (subst (asm) stage.simps)
         (auto split: sum.splits dest: rd_error wr_error less.hyps [OF dec])
  qed
qed

lemma make_waveform_loop_error:
  "fst (make_waveform_loop ev g nmodes mich sc st ii dt il end_i i b) = Some err
   \<Longrightarrow> err = MemoryFault"
proof (induction "nat (end_i - i)" arbitrary: i b rule: less_induct)
  case less
  show ?case
  proof (cases "i < end_i")
    case False
    with less.prems show ?thesis by (subst (asm) make_waveform_loop.simps) simp
  next
    case True
    have dec: "nat (end_i - (i + 1)) < nat (end_i - i)" using True by simp
    from less.prems True show ?thesis
      by (subst (asm) make_waveform_loop.simps)
         (auto split: sum.splits dest: store_error sample_value_error less.hyps [OF dec])
  qed
qed

lemma make_waveform_error:
  "fst (make_waveform ev waveform interp_array g nmodes mich delta_t start_t_all interval_inds
          data_length init_length) = Some err \<Longrightarrow> err = MemoryFault"
  by (auto simp: make_waveform_def split: sum.splits
      dest: stage_error make_waveform_loop_error)


subsection \<open>The harmonic loop\<close>

lemma int_interval_first: "n \<le> m \<Longrightarrow> {n .. m} = insert n {n + 1 .. m}" for n m :: int
  by auto

lemma harmonic_loop_sum:
  "harmonic_loop ev mich cx nmodes n acc =
     (fst acc + (\<Sum>k = n .. nmodes. fst (harmonic ev mich cx k)),
      snd acc + (\<Sum>k = n .. nmodes. snd (harmonic ev mich cx k)))"
proof (induction "nat (nmodes + 1 - n)" arbitrary: n acc rule: less_induct)
  case less
  show ?case
  proof (cases "n \<le> nmodes")
    case False
    then show ?thesis by (subst harmonic_loop.simps) simp
  next
    case True
    have dec: "nat (nmodes + 1 - (n + 1)) < nat (nmodes + 1 - n)" using True by simp
    have split_sum: "(\<Sum>k = n .. nmodes. f k) = f n + (\<Sum>k = n + 1 .. nmodes. f k)"
      for f :: "int \<Rightarrow> real"
      using True by (simp add: int_interval_first)
    show ?thesis
      using True
      by (subst harmonic_loop.simps)
         (simp add: less.hyps [OF dec] split_sum [of "\<lambda>k. fst (harmonic ev mich cx k)"]
            split_sum [of "\<lambda>k. snd (harmonic ev mich cx k)"] split: prod.splits)
  qed
qed

lemma harmonic_loop_skipped: "nmodes < 1 \<Longrightarrow> harmonic_loop ev mich cx nmodes 1 acc = acc"
  by (subst harmonic_loop.simps) simp

subsection \<open>The sample loop\<close>

lemma writes_to_store:
  "store b i v = Inr b' \<Longrightarrow>
     writes_to b' j = (if j = i then writes_to b j @ [v] else writes_to b j)"
  by (auto simp: store_def writes_to_def split: sum.splits)

lemma store_in_range:
  "0 \<le> i \<Longrightarrow> i < int (length (cells b)) \<Longrightarrow>
     store b i v = Inr \<lparr>cells = (cells b)[nat i := v], stores = stores b @ [(i, v)]\<rparr>"
  by (simp add: store_def wr_def)

lemma make_waveform_loop_run:
  assumes "0 \<le> i"
    and "\<forall>j. i \<le> j \<and> j < end_i \<longrightarrow> j < int (length (cells b))
            \<and> (\<exists>v. sample_value ev g nmodes mich sc st ii dt il j = Inr v)"
  shows "\<exists>b'. make_waveform_loop ev g nmodes mich sc st ii dt il end_i i b = (None, b')
      \<and> length (cells b') = length (cells b)
      \<and> (\<forall>j. i \<le> j \<and> j < end_i \<longrightarrow>
            sample_value ev g nmodes mich sc st ii dt il j = Inr (cells b' ! nat j)
            \<and> writes_to b' j = writes_to b j @ [Complex 0 0, cells b' ! nat j])
      \<and> (\<forall>j. \<not> (i \<le> j \<and> j < end_i) \<longrightarrow> writes_to b' j = writes_to b j)
      \<and> (\<forall>j. 0 \<le> j \<and> \<not> (i \<le> j \<and> j < end_i) \<longrightarrow> cells b' ! nat j = cells b ! nat j)"
  using assms
proof (induction "nat (end_i - i)" arbitrary: i b rule: less_induct)
  case less
  show ?case
  proof (cases "i < end_i")
    case False
    then show ?thesis by (subst make_waveform_loop.simps) simp
  next
    case True
    from less.prems True obtain v where
      rng: "i < int (length (cells b))"
      and v: "sample_value ev g nmodes mich sc st ii dt il i = Inr v"
      by auto
    define b1 where "b1 = \<lparr>cells = (cells b)[nat i := Complex 0 0],
                           stores = stores b @ [(i, Complex 0 0)]\<rparr>"
    define b2 where "b2 = \<lparr>cells = (cells b1)[nat i := v], stores = stores b1 @ [(i, v)]\<rparr>"
    have s1: "store b i (Complex 0 0) = Inr b1"
      using less.prems(1) rng by (simp add: store_in_range b1_def)
    have s2: "store b1 i v = Inr b2"
      using less.prems(1) rng by (simp add: store_in_range b1_def b2_def)
    have unfold: "make_waveform_loop ev g nmodes mich sc st ii dt il end_i i b
                  = make_waveform_loop ev g nmodes mich sc st ii dt il end_i (i + 1) b2"
      using True by (subst make_waveform_loop.simps) (simp add: s1 s2 v)
    have dec: "nat (end_i - (i + 1)) < nat (end_i - i)" using True by simp
    have pre: "\<forall>j. i + 1 \<le> j \<and> j < end_i \<longrightarrow> j < int (length (cells b2))
            \<and> (\<exists>v. sample_value ev g nmodes mich sc st ii dt il j = Inr v)"
      using less.prems(2) by (simp add: b1_def b2_def)
    from less.hyps [OF dec _ pre] less.prems(1) obtain b' where
      run: "make_waveform_loop ev g nmodes mich sc st ii dt il end_i (i + 1) b2 = (None, b')"
      and len: "length (cells b') = length (cells b2)"
      and inner: "\<forall>j. i + 1 \<le> j \<and> j < end_i \<longrightarrow>
            sample_value ev g nmodes mich sc st ii dt il j = Inr (cells b' ! nat j)
            \<and> writes_to b' j = writes_to b2 j @ [Complex 0 0, cells b' ! nat j]"
      and outer_w: "\<forall>j. \<not> (i + 1 \<le> j \<and> j < end_i) \<longrightarrow> writes_to b' j = writes_to b2 j"
      and outer_c: "\<forall>j. 0 \<le> j \<and> \<not> (i + 1 \<le> j \<and> j < end_i) \<longrightarrow>
                      cells b' ! nat j = cells b2 ! nat j"
      by (auto simp: add.commute)
    have w2: "writes_to b2 j = (if j = i then writes_to b j @ [Complex 0 0, v] else writes_to b j)"
      for j
      using writes_to_store [OF s1, of j] writes_to_store [OF s2, of j]
      by (cases "j = i") simp_all
    have c2: "cells b2 ! nat i = v"
      using less.prems(1) rng by (simp add: b1_def b2_def)
    have c2': "cells b2 ! nat j = cells b ! nat j" if "0 \<le> j" "j \<noteq> i" for j
    proof -
      from that less.prems(1) have "nat i \<noteq> nat j" by arith
      then show ?thesis by (simp add: b1_def b2_def)
    qed
    have at_i: "cells b' ! nat i = v" "writes_to b' i = writes_to b i @ [Complex 0 0, v]"
      using outer_c outer_w less.prems(1) c2 w2 [of i] by simp_all
    have in_range: "sample_value ev g nmodes mich sc st ii dt il j = Inr (cells b' ! nat j)
            \<and> writes_to b' j = writes_to b j @ [Complex 0 0, cells b' ! nat j]"
      if "i \<le> j \<and> j < end_i" for j
    proof (cases "j = i")
      case True
      with at_i v show ?thesis by simp
    next
      case False
      with that have "i + 1 \<le> j \<and> j < end_i" by simp
      with inner w2 [of j] False show ?thesis by simp
    qed
    have out_w: "writes_to b' j = writes_to b j" if "\<not> (i \<le> j \<and> j < end_i)" for j
    proof -
      from that True have "j \<noteq> i" "\<not> (i + 1 \<le> j \<and> j < end_i)" by auto
      with outer_w w2 [of j] show ?thesis by simp
    qed
    have out_c: "cells b' ! nat j = cells b ! nat j" if "0 \<le> j \<and> \<not> (i \<le> j \<and> j < end_i)" for j
    proof -
      from that True have "j \<noteq> i" "\<not> (i + 1 \<le> j \<and> j < end_i)" "0 \<le> j" by auto
      with outer_c c2' [of j] show ?thesis by simp
    qed
    have "length (cells b') = length (cells b)"
      using len by (simp add: b1_def b2_def)
    with unfold run in_range out_w out_c show ?thesis by auto
  qed
qed


subsection \<open>A whole call\<close>

lemma sample_value_staged:
  assumes fit: "inputs_fit interp_array start_t_all interval_inds data_length init_length"
    and sc: "stage 0 (4 * NUM_PARS * init_length) interp_array
       (replicate (nat (NUM_PARS * 4 * MAX_SPLINE_POINTS)) None) = Inr spline_coeffs"
    and st: "stage 0 init_length start_t_all (replicate (nat MAX_SPLINE_POINTS) None) = Inr start_t"
    and i: "0 \<le> i" "i < data_length"
  shows "\<exists>p. sample_pars spline_coeffs start_t interval_inds delta_t init_length i = Inr p
      \<and> sample_value ev g nmodes mich spline_coeffs start_t interval_inds delta_t init_length i
          = Inr (Complex
              (\<Sum>n = 1 .. nmodes.
                 fst (harmonic ev mich (sample_ctx ev g mich (delta_t * real_of_int i) p) n))
              (- (\<Sum>n = 1 .. nmodes.
                 snd (harmonic ev mich (sample_ctx ev g mich (delta_t * real_of_int i) p) n))))"
proof -
  from sample_pars_staged [OF fit sc st i, of delta_t]
  obtain p where p: "sample_pars spline_coeffs start_t interval_inds delta_t init_length i = Inr p"
    by (simp add: Let_def)
  then show ?thesis
    by (simp add: sample_value_def Let_def harmonic_loop_sum)
qed

lemma make_waveform_run:
  assumes fit: "inputs_fit interp_array start_t_all interval_inds data_length init_length"
    and room: "output_fits waveform data_length"
  obtains spline_coeffs start_t b where
    "stage 0 (4 * NUM_PARS * init_length) interp_array
       (replicate (nat (NUM_PARS * 4 * MAX_SPLINE_POINTS)) None) = Inr spline_coeffs"
    "stage 0 init_length start_t_all (replicate (nat MAX_SPLINE_POINTS) None) = Inr start_t"
    "make_waveform ev waveform interp_array g nmodes mich delta_t start_t_all interval_inds
       data_length init_length = (None, b)"
    "length (cells b) = length (cells waveform)"
    "\<forall>j. 0 \<le> j \<and> j < data_length \<longrightarrow>
        sample_value ev g nmodes mich spline_coeffs start_t interval_inds delta_t init_length j
          = Inr (cells b ! nat j)
        \<and> writes_to b j = writes_to waveform j @ [Complex 0 0, cells b ! nat j]"
    "\<forall>j. \<not> (0 \<le> j \<and> j < data_length) \<longrightarrow> writes_to b j = writes_to waveform j"
    "\<forall>j. 0 \<le> j \<and> \<not> j < data_length \<longrightarrow> cells b ! nat j = cells waveform ! nat j"
proof -
  from fit obtain spline_coeffs start_t where
    sc: "stage 0 (4 * NUM_PARS * init_length) interp_array
       (replicate (nat (NUM_PARS * 4 * MAX_SPLINE_POINTS)) None) = Inr spline_coeffs"
    and st: "stage 0 init_length start_t_all (replicate (nat MAX_SPLINE_POINTS) None) = Inr start_t"
    by (rule staging_succeeds)
  have pre: "\<forall>j. 0 \<le> j \<and> j < data_length \<longrightarrow> j < int (length (cells waveform))
      \<and> (\<exists>v. sample_value ev g nmodes mich spline_coeffs start_t interval_inds delta_t
                 init_length j = Inr v)"
  proof (intro allI impI)
    fix j assume j: "0 \<le> j \<and> j < data_length"
    then have "0 \<le> j" "j < data_length" by simp_all
    from sample_value_staged [OF fit sc st this, of delta_t ev g nmodes mich] room j
    show "j < int (length (cells waveform))
      \<and> (\<exists>v. sample_value ev g nmodes mich spline_coeffs start_t interval_inds delta_t
                 init_length j = Inr v)"
      by (auto simp: output_fits_def)
  qed
  have zero: "(0::int) \<le> 0" by simp
  from make_waveform_loop_run [OF zero pre] obtain b where
    "make_waveform_loop ev g nmodes mich spline_coeffs start_t interval_inds delta_t init_length
       data_length 0 waveform = (None, b)"
    "length (cells b) = length (cells waveform)"
    "\<forall>j. 0 \<le> j \<and> j < data_length \<longrightarrow>
        sample_value ev g nmodes mich spline_coeffs start_t interval_inds delta_t init_length j
          = Inr (cells b ! nat j)
        \<and> writes_to b j = writes_to waveform j @ [Complex 0 0, cells b ! nat j]"
    "\<forall>j. \<not> (0 \<le> j \<and> j < data_length) \<longrightarrow> writes_to b j = writes_to waveform j"
    "\<forall>j. 0 \<le> j \<and> \<not> (0 \<le> j \<and> j < data_length) \<longrightarrow> cells b ! nat j = cells waveform ! nat j"
    by blast
  moreover from this(1) have "make_waveform ev waveform interp_array g nmodes mich delta_t start_t_all
      interval_inds data_length init_length = (None, b)"
    by (simp add: make_waveform_def sc st)
  ultimately show ?thesis using sc st by (intro that [of spline_coeffs start_t b]) auto
qed

lemma example_fits:
  "inputs_fit example_interp [0] [0, 0] 2 1"
  by (auto simp: inputs_fit_def example_interp_def NUM_PARS_def MAX_SPLINE_POINTS_def
      nth_Cons split: nat.splits)

lemma example_room: "output_fits example_waveform 2"
  by (simp add: output_fits_def example_waveform_def)

lemma example_fresh: "stores example_waveform = []"
  by (simp add: example_waveform_def)

text \<open>The example call with no harmonic, run in full.\<close>

lemma example_run:
  "make_waveform example_env example_waveform example_interp example_geometry 0 False 1
     [0] [0, 0] 2 1
   = (None, \<lparr>cells = [Complex 0 0, Complex 0 0],
             stores = [(0, Complex 0 0), (0, Complex 0 0), (1, Complex 0 0), (1, Complex 0 0)]\<rparr>)"
proof -
  from example_fits obtain spline_coeffs start_t where
    sc: "stage 0 (4 * NUM_PARS * 1) example_interp
       (replicate (nat (NUM_PARS * 4 * MAX_SPLINE_POINTS)) None) = Inr spline_coeffs"
    and st: "stage 0 1 [0] (replicate (nat MAX_SPLINE_POINTS) None) = Inr start_t"
    by (rule staging_succeeds)
  have v: "sample_value example_env example_geometry 0 False spline_coeffs start_t [0, 0] 1 1 i
             = Inr (Complex 0 0)" if "0 \<le> i" "i < 2" for i
    using sample_value_staged [OF example_fits sc st that, of 1 example_env example_geometry 0 False]
    by auto
  have v0: "sample_value example_env example_geometry 0 False spline_coeffs start_t [0, 0] 1 1 0
             = Inr (Complex 0 0)"
    and v1: "sample_value example_env example_geometry 0 False spline_coeffs start_t [0, 0] 1 1 1
             = Inr (Complex 0 0)"
    by (rule v, simp, simp)+
  show ?thesis
    unfolding make_waveform_def sc st
    by (simp add: make_waveform_loop.simps store_def wr_def v0 v1 example_waveform_def)
qed

lemma length_message_161:
  "length_message 161
     = ''Initial length is greater than the number of maximum allowable spline points: 161 > 160''"
  by (simp add: length_message_def show_int_def show_nat.simps digit_char_def MAX_SPLINE_POINTS_def)

subsection \<open>The entry point and the kernel\<close>

text \<open>
  C1. A call of \<open>get_waveform\<close> with a segment count above 160 ends with the
  configuration error, whose message names the count and the maximum, and leaves the
  output buffer and its list of stores as the caller passed them: nothing was computed
  and nothing written. With a segment count of at most 160, and so with exactly 160,
  the call is the kernel \<open>make_waveform\<close> on the same arguments and never yields the
  configuration error.
\<close>

theorem get_waveform_length_guard:
  "(init_len > 160 \<longrightarrow>
      get_waveform ev waveform interp_array g nmodes mich init_len out_len delta_t t interval_inds
        = (Some (ConfigError (length_message init_len) 23), waveform))
   \<and> (init_len \<le> 160 \<longrightarrow>
        get_waveform ev waveform interp_array g nmodes mich init_len out_len delta_t t interval_inds
          = make_waveform ev waveform interp_array g nmodes mich delta_t t interval_inds
              out_len init_len
        \<and> (\<forall>msg status.
              fst (get_waveform ev waveform interp_array g nmodes mich init_len out_len delta_t t
                     interval_inds) \<noteq> Some (ConfigError msg status)))"
proof (intro conjI impI allI)
  assume "init_len > 160"
  then show "get_waveform ev waveform interp_array g nmodes mich init_len out_len delta_t t interval_inds
        = (Some (ConfigError (length_message init_len) 23), waveform)"
    by (simp add: get_waveform_def MAX_SPLINE_POINTS_def throw_python_error_def)
next
  assume le: "init_len \<le> 160"
  then show eq: "get_waveform ev waveform interp_array g nmodes mich init_len out_len delta_t t interval_inds
          = make_waveform ev waveform interp_array g nmodes mich delta_t t interval_inds
              out_len init_len"
    by (simp add: get_waveform_def MAX_SPLINE_POINTS_def)
  fix msg status
  show "fst (get_waveform ev waveform interp_array g nmodes mich init_len out_len delta_t t
                     interval_inds) \<noteq> Some (ConfigError msg status)"
  proof
    assume "fst (get_waveform ev waveform interp_array g nmodes mich init_len out_len delta_t t
                     interval_inds) = Some (ConfigError msg status)"
    with eq have "ConfigError msg status = MemoryFault"
      by (intro make_waveform_error) simp
    then show False by simp
  qed
qed

theorem get_waveform_length_guard_witness:
  "(161::int) > 160
   \<and> get_waveform example_env example_waveform example_interp example_geometry 1 False 161 2 1
        [0] [0, 0]
      = (Some (ConfigError
          ''Initial length is greater than the number of maximum allowable spline points: 161 > 160''
          23), example_waveform)
   \<and> (160::int) \<le> 160
   \<and> get_waveform example_env example_waveform example_interp example_geometry 1 False 160 2 1
        [0] [0, 0]
      = make_waveform example_env example_waveform example_interp example_geometry 1 False 1
          [0] [0, 0] 2 160
   \<and> (\<forall>msg status.
         fst (get_waveform example_env example_waveform example_interp example_geometry 1 False
                160 2 1 [0] [0, 0]) \<noteq> Some (ConfigError msg status))"
proof -
  have gt: "(161::int) > 160" and le: "(160::int) \<le> 160" by simp_all
  from get_waveform_length_guard [of 161 example_env example_waveform example_interp
          example_geometry 1 False 2 1 "[0]" "[0, 0]"] gt
  have a: "get_waveform example_env example_waveform example_interp example_geometry 1 False 161 2 1
        [0] [0, 0]
      = (Some (ConfigError (length_message 161) 23), example_waveform)"
    by blast
  from get_waveform_length_guard [of 160 example_env example_waveform example_interp
          example_geometry 1 False 2 1 "[0]" "[0, 0]"] le
  have b: "get_waveform example_env example_waveform example_interp example_geometry 1 False 160 2 1
        [0] [0, 0]
      = make_waveform example_env example_waveform example_interp example_geometry 1 False 1
          [0] [0, 0] 2 160
   \<and> (\<forall>msg status.
         fst (get_waveform example_env example_waveform example_interp example_geometry 1 False
                160 2 1 [0] [0, 0]) \<noteq> Some (ConfigError msg status))"
    by blast
  from gt le a [unfolded length_message_161] b show ?thesis by blast
qed

text \<open>
  C5. For a call whose buffers fit and a sample index \<open>i\<close> below the output length, the
  two staging loops succeed and the kernel evaluates each of the eight parameters, in
  the order \<open>e\<close>, \<open>Phi\<close>, \<open>gim\<close>, \<open>alp\<close>, \<open>nu\<close>, \<open>gimdot\<close>, \<open>OmegaPhi\<close>, \<open>lam\<close>, as the
  cubic \<open>value + c1 x + c2 x\<^sup>2 + c3 x\<^sup>3\<close> in \<open>x = i delta_t - start_t[segment]\<close>, the
  segment being the map entry of \<open>i\<close> and the coefficient of order \<open>k\<close> of parameter \<open>p\<close>
  being read from the flat buffer at \<open>(k init_length + segment) 8 + p\<close>.
\<close>

theorem spline_evaluation:
  assumes fit: "inputs_fit interp_array start_t_all interval_inds data_length init_length"
    and i: "0 \<le> i" "i < data_length"
  shows "\<exists>spline_coeffs start_t.
      stage 0 (4 * NUM_PARS * init_length) interp_array
        (replicate (nat (NUM_PARS * 4 * MAX_SPLINE_POINTS)) None) = Inr spline_coeffs
      \<and> stage 0 init_length start_t_all (replicate (nat MAX_SPLINE_POINTS) None) = Inr start_t
      \<and> sample_pars spline_coeffs start_t interval_inds delta_t init_length i =
          (let segment = interval_inds ! nat i;
               x = real_of_int i * delta_t - start_t_all ! nat segment
           in Inr \<lparr>e_v = spec_cubic interp_array init_length segment 0 x,
                   Phi_v = spec_cubic interp_array init_length segment 1 x,
                   gim_v = spec_cubic interp_array init_length segment 2 x,
                   alp_v = spec_cubic interp_array init_length segment 3 x,
                   nu_v = spec_cubic interp_array init_length segment 4 x,
                   gimdot_v = spec_cubic interp_array init_length segment 5 x,
                   OmegaPhi_v = spec_cubic interp_array init_length segment 6 x,
                   lam_v = spec_cubic interp_array init_length segment 7 x\<rparr>)"
proof -
  from fit obtain spline_coeffs start_t where
    sc: "stage 0 (4 * NUM_PARS * init_length) interp_array
       (replicate (nat (NUM_PARS * 4 * MAX_SPLINE_POINTS)) None) = Inr spline_coeffs"
    and st: "stage 0 init_length start_t_all (replicate (nat MAX_SPLINE_POINTS) None) = Inr start_t"
    by (rule staging_succeeds)
  from sc st sample_pars_staged [OF fit sc st i] show ?thesis by blast
qed

theorem spline_evaluation_witness:
  "inputs_fit example_interp [0] [0, 0] 2 1 \<and> (0::int) \<le> 1 \<and> (1::int) < 2
   \<and> (\<exists>spline_coeffs start_t.
      stage 0 (4 * NUM_PARS * 1) example_interp
        (replicate (nat (NUM_PARS * 4 * MAX_SPLINE_POINTS)) None) = Inr spline_coeffs
      \<and> stage 0 1 [0] (replicate (nat MAX_SPLINE_POINTS) None) = Inr start_t
      \<and> sample_pars spline_coeffs start_t [0, 0] 1 1 1 =
          Inr \<lparr>e_v = 48, Phi_v = 52, gim_v = 56, alp_v = 60, nu_v = 64, gimdot_v = 68,
               OmegaPhi_v = 72, lam_v = 76\<rparr>)"
proof -
  have i: "(0::int) \<le> 1" "(1::int) < 2" by simp_all
  from spline_evaluation [OF example_fits i, of 1]
  have "\<exists>spline_coeffs start_t.
      stage 0 (4 * NUM_PARS * 1) example_interp
        (replicate (nat (NUM_PARS * 4 * MAX_SPLINE_POINTS)) None) = Inr spline_coeffs
      \<and> stage 0 1 [0] (replicate (nat MAX_SPLINE_POINTS) None) = Inr start_t
      \<and> sample_pars spline_coeffs start_t [0, 0] 1 1 1 =
          Inr \<lparr>e_v = 48, Phi_v = 52, gim_v = 56, alp_v = 60, nu_v = 64, gimdot_v = 68,
               OmegaPhi_v = 72, lam_v = 76\<rparr>"
    by (simp add: spec_cubic_def Let_def example_interp_def)
  with example_fits i show ?thesis by blast
qed

text \<open>
  C6. For every harmonic index \<open>n\<close> and eccentricity \<open>e\<close> the kernel takes five values of
  the integer-order Bessel function of the library at the argument \<open>n e\<close>, of orders
  \<open>n - 2\<close> to \<open>n + 2\<close>; for \<open>n = 1\<close> the value of order \<open>n - 2\<close> is \<open>-J1(e)\<close>, otherwise it
  is \<open>J_{n-2}(n e)\<close>. The eccentricity is the one of the spline. The two amplitudes of
  harmonic \<open>n\<close> are the source's combination of exactly these five values, the channel
  contributions are the projection of the two amplitudes, the harmonic loop sums them
  over \<open>n\<close> from \<open>1\<close> to \<open>nmodes\<close>, the value of a sample is that sum, and in a call whose
  buffers fit the kernel leaves the value of sample \<open>j\<close> in cell \<open>j\<close>.
\<close>

theorem bessel_orders:
  "bessel5 ev n e =
     ((if n = 1 then - gsl_sf_bessel_J1 ev e else gsl_sf_bessel_Jn ev (n - 2) (real_of_int n * e)),
      gsl_sf_bessel_Jn ev (n - 1) (real_of_int n * e),
      gsl_sf_bessel_Jn ev n (real_of_int n * e),
      gsl_sf_bessel_Jn ev (n + 1) (real_of_int n * e),
      gsl_sf_bessel_Jn ev (n + 2) (real_of_int n * e))
   \<and> h_e (sample_ctx ev g mich t p) = e_v p
   \<and> pol_amps ev mich cx n =
       (let e = h_e cx; rn = real_of_int n; ne = rn * e;
            J0 = (if n = 1 then - gsl_sf_bessel_J1 ev e else gsl_sf_bessel_Jn ev (n - 2) ne);
            J1 = gsl_sf_bessel_Jn ev (n - 1) ne;
            J2 = gsl_sf_bessel_Jn ev n ne;
            J3 = gsl_sf_bessel_Jn ev (n + 1) ne;
            J4 = gsl_sf_bessel_Jn ev (n + 2) ne;
            nPhi = (if mich
                    then rn * h_Phi cx
                         + 2 * pi * (rn * h_nu cx + h_gimdot cx / pi) * AUsec ev
                             * h_sinqS cx * h_cosorbphs cx
                    else rn * h_Phi cx);
            a = - rn * h_Amp cx * (J0 - 2 * e * J1 + 2 / rn * J2 + 2 * e * J3 - J4) * cos nPhi;
            b = - rn * h_Amp cx * sqrt (1 - e * e) * (J0 - 2 * J2 + J4) * sin nPhi;
            c = 2 * h_Amp cx * J2 * cos nPhi;
            Aplus = - (1 + h_Ldotn2 cx) * (a * h_cos2gam cx - b * h_sin2gam cx)
                    + c * (1 - h_Ldotn2 cx);
            Acros = 2 * h_Ldotn cx * (b * h_cos2gam cx + a * h_sin2gam cx)
        in (Aplus * h_rot cx ! 0 + Acros * h_rot cx ! 1,
            Aplus * h_rot cx ! 2 + Acros * h_rot cx ! 3))
   \<and> harmonic ev mich cx n
       = channels mich (h_F cx) (fst (pol_amps ev mich cx n)) (snd (pol_amps ev mich cx n))
   \<and> harmonic_loop ev mich cx nmodes 1 (0, 0)
       = (\<Sum>k = 1 .. nmodes. fst (harmonic ev mich cx k),
          \<Sum>k = 1 .. nmodes. snd (harmonic ev mich cx k))
   \<and> sample_value ev g nmodes mich spline_coeffs start_t interval_inds delta_t init_length i
       = (case sample_pars spline_coeffs start_t interval_inds delta_t init_length i of
            Inl err \<Rightarrow> Inl err
          | Inr q \<Rightarrow>
              Inr (Complex
                (\<Sum>k = 1 .. nmodes.
                   fst (harmonic ev mich (sample_ctx ev g mich (delta_t * real_of_int i) q) k))
                (- (\<Sum>k = 1 .. nmodes.
                   snd (harmonic ev mich (sample_ctx ev g mich (delta_t * real_of_int i) q) k)))))
   \<and> (inputs_fit interp_array start_t_all interval_inds data_length init_length
        \<and> output_fits waveform data_length \<longrightarrow>
        (\<exists>sc st b.
           stage 0 (4 * NUM_PARS * init_length) interp_array
             (replicate (nat (NUM_PARS * 4 * MAX_SPLINE_POINTS)) None) = Inr sc
           \<and> stage 0 init_length start_t_all (replicate (nat MAX_SPLINE_POINTS) None) = Inr st
           \<and> make_waveform ev waveform interp_array g nmodes mich delta_t start_t_all
                interval_inds data_length init_length = (None, b)
           \<and> (\<forall>j. 0 \<le> j \<and> j < data_length \<longrightarrow>
                 sample_value ev g nmodes mich sc st interval_inds delta_t init_length j
                   = Inr (cells b ! nat j))))"
proof -
  have five: "bessel5 ev n e =
     ((if n = 1 then - gsl_sf_bessel_J1 ev e else gsl_sf_bessel_Jn ev (n - 2) (real_of_int n * e)),
      gsl_sf_bessel_Jn ev (n - 1) (real_of_int n * e),
      gsl_sf_bessel_Jn ev n (real_of_int n * e),
      gsl_sf_bessel_Jn ev (n + 1) (real_of_int n * e),
      gsl_sf_bessel_Jn ev (n + 2) (real_of_int n * e))" for e
    by (simp add: bessel5_def Let_def)
  have ecc: "h_e (sample_ctx ev g mich t p) = e_v p"
    by (simp add: sample_ctx_def Let_def)
  have amps: "pol_amps ev mich cx n =
       (let e = h_e cx; rn = real_of_int n; ne = rn * e;
            J0 = (if n = 1 then - gsl_sf_bessel_J1 ev e else gsl_sf_bessel_Jn ev (n - 2) ne);
            J1 = gsl_sf_bessel_Jn ev (n - 1) ne;
            J2 = gsl_sf_bessel_Jn ev n ne;
            J3 = gsl_sf_bessel_Jn ev (n + 1) ne;
            J4 = gsl_sf_bessel_Jn ev (n + 2) ne;
            nPhi = (if mich
                    then rn * h_Phi cx
                         + 2 * pi * (rn * h_nu cx + h_gimdot cx / pi) * AUsec ev
                             * h_sinqS cx * h_cosorbphs cx
                    else rn * h_Phi cx);
            a = - rn * h_Amp cx * (J0 - 2 * e * J1 + 2 / rn * J2 + 2 * e * J3 - J4) * cos nPhi;
            b = - rn * h_Amp cx * sqrt (1 - e * e) * (J0 - 2 * J2 + J4) * sin nPhi;
            c = 2 * h_Amp cx * J2 * cos nPhi;
            Aplus = - (1 + h_Ldotn2 cx) * (a * h_cos2gam cx - b * h_sin2gam cx)
                    + c * (1 - h_Ldotn2 cx);
            Acros = 2 * h_Ldotn cx * (b * h_cos2gam cx + a * h_sin2gam cx)
        in (Aplus * h_rot cx ! 0 + Acros * h_rot cx ! 1,
            Aplus * h_rot cx ! 2 + Acros * h_rot cx ! 3))"
    unfolding pol_amps_def five by (simp add: Let_def)
  have har: "harmonic ev mich cx n
       = channels mich (h_F cx) (fst (pol_amps ev mich cx n)) (snd (pol_amps ev mich cx n))"
    by (simp add: harmonic_def split: prod.splits)
  have loop: "harmonic_loop ev mich cx nmodes 1 (0, 0)
       = (\<Sum>k = 1 .. nmodes. fst (harmonic ev mich cx k),
          \<Sum>k = 1 .. nmodes. snd (harmonic ev mich cx k))" for cx
    by (simp add: harmonic_loop_sum)
  have kernel: "sample_value ev g nmodes mich spline_coeffs start_t interval_inds delta_t init_length i
       = (case sample_pars spline_coeffs start_t interval_inds delta_t init_length i of
            Inl err \<Rightarrow> Inl err
          | Inr q \<Rightarrow>
              Inr (Complex
                (\<Sum>k = 1 .. nmodes.
                   fst (harmonic ev mich (sample_ctx ev g mich (delta_t * real_of_int i) q) k))
                (- (\<Sum>k = 1 .. nmodes.
                   snd (harmonic ev mich (sample_ctx ev g mich (delta_t * real_of_int i) q) k)))))"
    by (simp add: sample_value_def Let_def loop split: sum.splits)
  have call: "\<exists>sc st b.
           stage 0 (4 * NUM_PARS * init_length) interp_array
             (replicate (nat (NUM_PARS * 4 * MAX_SPLINE_POINTS)) None) = Inr sc
           \<and> stage 0 init_length start_t_all (replicate (nat MAX_SPLINE_POINTS) None) = Inr st
           \<and> make_waveform ev waveform interp_array g nmodes mich delta_t start_t_all
                interval_inds data_length init_length = (None, b)
           \<and> (\<forall>j. 0 \<le> j \<and> j < data_length \<longrightarrow>
                 sample_value ev g nmodes mich sc st interval_inds delta_t init_length j
                   = Inr (cells b ! nat j))"
    if fit: "inputs_fit interp_array start_t_all interval_inds data_length init_length"
      and room: "output_fits waveform data_length"
  proof -
    from fit room obtain sc st b where
      "stage 0 (4 * NUM_PARS * init_length) interp_array
         (replicate (nat (NUM_PARS * 4 * MAX_SPLINE_POINTS)) None) = Inr sc"
      "stage 0 init_length start_t_all (replicate (nat MAX_SPLINE_POINTS) None) = Inr st"
      "make_waveform ev waveform interp_array g nmodes mich delta_t start_t_all interval_inds
         data_length init_length = (None, b)"
      "\<forall>j. 0 \<le> j \<and> j < data_length \<longrightarrow>
          sample_value ev g nmodes mich sc st interval_inds delta_t init_length j
            = Inr (cells b ! nat j)
          \<and> writes_to b j = writes_to waveform j @ [Complex 0 0, cells b ! nat j]"
      by (rule make_waveform_run [where ev = ev and g = g and nmodes = nmodes and mich = mich
            and delta_t = delta_t])
    then show ?thesis by blast
  qed
  from five ecc amps har loop kernel call show ?thesis by blast
qed

theorem bessel_orders_witness:
  "inputs_fit example_interp [0] [0, 0] 2 1 \<and> output_fits example_waveform 2
   \<and> (\<exists>sc st b.
         stage 0 (4 * NUM_PARS * 1) example_interp
           (replicate (nat (NUM_PARS * 4 * MAX_SPLINE_POINTS)) None) = Inr sc
         \<and> stage 0 1 [0] (replicate (nat MAX_SPLINE_POINTS) None) = Inr st
         \<and> make_waveform example_env example_waveform example_interp example_geometry 1 False 1
              [0] [0, 0] 2 1 = (None, b)
         \<and> sample_value example_env example_geometry 1 False sc st [0, 0] 1 1 1
              = Inr (cells b ! 1))
   \<and> bessel5 probe_env 1 (1 / 2) = (- (15 / 2), 1 / 2, 3 / 2, 5 / 2, 7 / 2)
   \<and> bessel5 probe_env 2 (1 / 2) = (1, 2, 3, 4, 5)
   \<and> pol_amps probe_env False probe_ctx 1 = (- 3, 0)"
proof -
  note at1 = bessel_orders [where ev = probe_env and n = 1 and e = "1 / 2" and mich = False
      and cx = probe_ctx]
  note at2 = bessel_orders [where ev = probe_env and n = 2 and e = "1 / 2"]
  note call = bessel_orders [where ev = example_env and g = example_geometry and nmodes = 1
      and mich = False and delta_t = 1 and interp_array = example_interp
      and start_t_all = "[0]" and interval_inds = "[0, 0]" and data_length = 2
      and init_length = 1 and waveform = example_waveform]
  have five1: "bessel5 probe_env 1 (1 / 2) = (- (15 / 2), 1 / 2, 3 / 2, 5 / 2, 7 / 2)"
    using at1 [THEN conjunct1] by (simp add: probe_env_def)
  have five2: "bessel5 probe_env 2 (1 / 2) = (1, 2, 3, 4, 5)"
    using at2 [THEN conjunct1] by (simp add: probe_env_def)
  have amps: "pol_amps probe_env False probe_ctx 1 = (- 3, 0)"
    using at1 [THEN conjunct2, THEN conjunct2, THEN conjunct1]
    by (simp add: probe_env_def probe_ctx_def Let_def)
  from call [THEN conjunct2, THEN conjunct2, THEN conjunct2, THEN conjunct2, THEN conjunct2,
         THEN conjunct2, THEN mp, OF conjI [OF example_fits example_room]]
  obtain sc st b where
    "stage 0 (4 * NUM_PARS * 1) example_interp
           (replicate (nat (NUM_PARS * 4 * MAX_SPLINE_POINTS)) None) = Inr sc"
    "stage 0 1 [0] (replicate (nat MAX_SPLINE_POINTS) None) = Inr st"
    "make_waveform example_env example_waveform example_interp example_geometry 1 False 1
              [0] [0, 0] 2 1 = (None, b)"
    "\<forall>j. 0 \<le> j \<and> j < 2 \<longrightarrow>
       sample_value example_env example_geometry 1 False sc st [0, 0] 1 1 j = Inr (cells b ! nat j)"
    by blast
  from this(1-3) this(4) [rule_format, of 1]
  have run: "\<exists>sc st b.
         stage 0 (4 * NUM_PARS * 1) example_interp
           (replicate (nat (NUM_PARS * 4 * MAX_SPLINE_POINTS)) None) = Inr sc
         \<and> stage 0 1 [0] (replicate (nat MAX_SPLINE_POINTS) None) = Inr st
         \<and> make_waveform example_env example_waveform example_interp example_geometry 1 False 1
              [0] [0, 0] 2 1 = (None, b)
         \<and> sample_value example_env example_geometry 1 False sc st [0, 0] 1 1 1
              = Inr (cells b ! 1)"
    by auto
  from example_fits example_room run five1 five2 amps show ?thesis by blast
qed

text \<open>
  C7. With \<open>mich\<close> false the two response pairs are \<open>(1, 0)\<close> and \<open>(0, 1)\<close>, so the two
  channel contributions of a harmonic are \<open>Aplus\<close> and \<open>Acros\<close> themselves; with \<open>mich\<close>
  true both contributions carry the factor \<open>sqrt 3 / 2\<close>.
\<close>

theorem antenna_modes:
  "antenna ev False t qS_c phiS_a qK_c phiK_a
     = \<lparr>FplusI = 1, FcrosI = 0, FplusII = 0, FcrosII = 1\<rparr>
   \<and> h_F (sample_ctx ev g False t p) = \<lparr>FplusI = 1, FcrosI = 0, FplusII = 0, FcrosII = 1\<rparr>
   \<and> channels False \<lparr>FplusI = 1, FcrosI = 0, FplusII = 0, FcrosII = 1\<rparr> Aplus Acros
       = (Aplus, Acros)
   \<and> harmonic ev False (sample_ctx ev g False t p) n
       = pol_amps ev False (sample_ctx ev g False t p) n
   \<and> channels True F Aplus Acros
       = (sqrt 3 / 2 * (FplusI F * Aplus + FcrosI F * Acros),
          sqrt 3 / 2 * (FplusII F * Aplus + FcrosII F * Acros))
   \<and> harmonic ev True cx n
       = (sqrt 3 / 2 * (FplusI (h_F cx) * fst (pol_amps ev True cx n)
                        + FcrosI (h_F cx) * snd (pol_amps ev True cx n)),
          sqrt 3 / 2 * (FplusII (h_F cx) * fst (pol_amps ev True cx n)
                        + FcrosII (h_F cx) * snd (pol_amps ev True cx n)))"
proof -
  have F: "antenna ev False t qS_c phiS_a qK_c phiK_a
     = \<lparr>FplusI = 1, FcrosI = 0, FplusII = 0, FcrosII = 1\<rparr>" for t qS_c phiS_a qK_c phiK_a
    by (simp add: antenna_def)
  have hF: "h_F (sample_ctx ev g False t p) = \<lparr>FplusI = 1, FcrosI = 0, FplusII = 0, FcrosII = 1\<rparr>"
    by (simp add: sample_ctx_def Let_def F)
  have ch: "channels False \<lparr>FplusI = 1, FcrosI = 0, FplusII = 0, FcrosII = 1\<rparr> A B = (A, B)"
    for A B
    by (simp add: channels_def)
  have h0: "harmonic ev False (sample_ctx ev g False t p) n
       = pol_amps ev False (sample_ctx ev g False t p) n"
    by (simp add: harmonic_def hF ch split: prod.splits)
  have ct: "channels True F Aplus Acros
       = (sqrt 3 / 2 * (FplusI F * Aplus + FcrosI F * Acros),
          sqrt 3 / 2 * (FplusII F * Aplus + FcrosII F * Acros))" for F Aplus Acros
    by (simp add: channels_def halfsqrt3_def)
  have h1: "harmonic ev True cx n
       = (sqrt 3 / 2 * (FplusI (h_F cx) * fst (pol_amps ev True cx n)
                        + FcrosI (h_F cx) * snd (pol_amps ev True cx n)),
          sqrt 3 / 2 * (FplusII (h_F cx) * fst (pol_amps ev True cx n)
                        + FcrosII (h_F cx) * snd (pol_amps ev True cx n)))"
    by (simp add: harmonic_def ct split: prod.splits)
  from F hF ch h0 ct h1 show ?thesis by blast
qed

text \<open>
  C8, as amended. In a call whose buffers fit, the kernel runs without a fault and
  stores into every cell \<open>i\<close> below the output length exactly twice: first zero, then the
  final value, which is the complex number \<open>(hI, -hII)\<close> of the two channel contributions
  summed over the harmonics \<open>1\<close> to \<open>nmodes\<close>. It stores into no other cell and leaves
  the cells from the output length on as they were.
\<close>

theorem waveform_stores:
  assumes fit: "inputs_fit interp_array start_t_all interval_inds data_length init_length"
    and room: "output_fits waveform data_length"
    and fresh: "stores waveform = []"
  shows "\<exists>spline_coeffs start_t b.
      stage 0 (4 * NUM_PARS * init_length) interp_array
        (replicate (nat (NUM_PARS * 4 * MAX_SPLINE_POINTS)) None) = Inr spline_coeffs
      \<and> stage 0 init_length start_t_all (replicate (nat MAX_SPLINE_POINTS) None) = Inr start_t
      \<and> make_waveform ev waveform interp_array g nmodes mich delta_t start_t_all interval_inds
           data_length init_length = (None, b)
      \<and> length (cells b) = length (cells waveform)
      \<and> (\<forall>i. 0 \<le> i \<and> i < data_length \<longrightarrow>
            (\<exists>p. sample_pars spline_coeffs start_t interval_inds delta_t init_length i = Inr p
               \<and> cells b ! nat i =
                   Complex
                     (\<Sum>n = 1 .. nmodes.
                        fst (harmonic ev mich (sample_ctx ev g mich (delta_t * real_of_int i) p) n))
                     (- (\<Sum>n = 1 .. nmodes.
                        snd (harmonic ev mich (sample_ctx ev g mich (delta_t * real_of_int i) p) n))))
            \<and> writes_to b i = [Complex 0 0, cells b ! nat i])
      \<and> (\<forall>i. \<not> (0 \<le> i \<and> i < data_length) \<longrightarrow> writes_to b i = [])
      \<and> (\<forall>i. 0 \<le> i \<and> \<not> i < data_length \<longrightarrow> cells b ! nat i = cells waveform ! nat i)"
proof -
  from fit room obtain spline_coeffs start_t b where
    sc: "stage 0 (4 * NUM_PARS * init_length) interp_array
       (replicate (nat (NUM_PARS * 4 * MAX_SPLINE_POINTS)) None) = Inr spline_coeffs"
    and st: "stage 0 init_length start_t_all (replicate (nat MAX_SPLINE_POINTS) None) = Inr start_t"
    and run: "make_waveform ev waveform interp_array g nmodes mich delta_t start_t_all interval_inds
       data_length init_length = (None, b)"
    and len: "length (cells b) = length (cells waveform)"
    and inner: "\<forall>j. 0 \<le> j \<and> j < data_length \<longrightarrow>
        sample_value ev g nmodes mich spline_coeffs start_t interval_inds delta_t init_length j
          = Inr (cells b ! nat j)
        \<and> writes_to b j = writes_to waveform j @ [Complex 0 0, cells b ! nat j]"
    and outer_w: "\<forall>j. \<not> (0 \<le> j \<and> j < data_length) \<longrightarrow> writes_to b j = writes_to waveform j"
    and outer_c: "\<forall>j. 0 \<le> j \<and> \<not> j < data_length \<longrightarrow> cells b ! nat j = cells waveform ! nat j"
    by (rule make_waveform_run [where ev = ev and g = g and nmodes = nmodes and mich = mich
          and delta_t = delta_t])
  have none: "writes_to waveform j = []" for j
    using fresh by (simp add: writes_to_def)
  have in_range: "(\<exists>p. sample_pars spline_coeffs start_t interval_inds delta_t init_length i = Inr p
               \<and> cells b ! nat i =
                   Complex
                     (\<Sum>n = 1 .. nmodes.
                        fst (harmonic ev mich (sample_ctx ev g mich (delta_t * real_of_int i) p) n))
                     (- (\<Sum>n = 1 .. nmodes.
                        snd (harmonic ev mich (sample_ctx ev g mich (delta_t * real_of_int i) p) n))))
            \<and> writes_to b i = [Complex 0 0, cells b ! nat i]"
    if i: "0 \<le> i \<and> i < data_length" for i
  proof -
    from i have i': "0 \<le> i" "i < data_length" by simp_all
    from inner i have v: "sample_value ev g nmodes mich spline_coeffs start_t interval_inds delta_t
        init_length i = Inr (cells b ! nat i)"
      and w: "writes_to b i = writes_to waveform i @ [Complex 0 0, cells b ! nat i]"
      by simp_all
    from sample_value_staged [OF fit sc st i', of delta_t ev g nmodes mich] v w none [of i]
    show ?thesis by auto
  qed
  from sc st run len in_range outer_w outer_c none show ?thesis by (intro exI conjI) auto
qed

theorem waveform_stores_witness:
  "inputs_fit example_interp [0] [0, 0] 2 1 \<and> output_fits example_waveform 2
   \<and> stores example_waveform = []
   \<and> (\<exists>spline_coeffs start_t b.
        stage 0 (4 * NUM_PARS * 1) example_interp
          (replicate (nat (NUM_PARS * 4 * MAX_SPLINE_POINTS)) None) = Inr spline_coeffs
        \<and> stage 0 1 [0] (replicate (nat MAX_SPLINE_POINTS) None) = Inr start_t
        \<and> make_waveform example_env example_waveform example_interp example_geometry 1 False 1
             [0] [0, 0] 2 1 = (None, b)
        \<and> length (cells b) = 2
        \<and> (\<exists>p. sample_pars spline_coeffs start_t [0, 0] 1 1 1 = Inr p
              \<and> cells b ! 1 =
                  Complex
                    (\<Sum>n = 1 .. 1.
                       fst (harmonic example_env False
                              (sample_ctx example_env example_geometry False 1 p) n))
                    (- (\<Sum>n = 1 .. 1.
                       snd (harmonic example_env False
                              (sample_ctx example_env example_geometry False 1 p) n))))
        \<and> writes_to b 1 = [Complex 0 0, cells b ! 1]
        \<and> writes_to b 2 = [])"
proof -
  from waveform_stores [OF example_fits example_room example_fresh,
         of example_env example_geometry 1 False 1]
  obtain spline_coeffs start_t b where
    sc: "stage 0 (4 * NUM_PARS * 1) example_interp
          (replicate (nat (NUM_PARS * 4 * MAX_SPLINE_POINTS)) None) = Inr spline_coeffs"
    and st: "stage 0 1 [0] (replicate (nat MAX_SPLINE_POINTS) None) = Inr start_t"
    and run: "make_waveform example_env example_waveform example_interp example_geometry 1 False 1
             [0] [0, 0] 2 1 = (None, b)"
    and len: "length (cells b) = length (cells example_waveform)"
    and inner: "\<forall>i. 0 \<le> i \<and> i < 2 \<longrightarrow>
            (\<exists>p. sample_pars spline_coeffs start_t [0, 0] 1 1 i = Inr p
               \<and> cells b ! nat i =
                   Complex
                     (\<Sum>n = 1 .. 1.
                        fst (harmonic example_env False
                               (sample_ctx example_env example_geometry False (1 * real_of_int i) p) n))
                     (- (\<Sum>n = 1 .. 1.
                        snd (harmonic example_env False
                               (sample_ctx example_env example_geometry False (1 * real_of_int i) p) n))))
            \<and> writes_to b i = [Complex 0 0, cells b ! nat i]"
    and outer: "\<forall>i. \<not> (0 \<le> i \<and> i < 2) \<longrightarrow> writes_to b i = []"
    by blast
  from inner [rule_format, of 1] outer [rule_format, of 2] sc st run len example_fits
    example_room example_fresh
  show ?thesis
    by (simp add: example_waveform_def)
qed

text \<open>
  The claim as the specification words it, one store per cell, fails on the example
  call: each of the two cells is stored into twice.
\<close>

theorem waveform_stores_counterexample:
  "inputs_fit example_interp [0] [0, 0] 2 1 \<and> output_fits example_waveform 2
   \<and> make_waveform example_env example_waveform example_interp example_geometry 0 False 1
        [0] [0, 0] 2 1
      = (None, \<lparr>cells = [Complex 0 0, Complex 0 0],
                stores = [(0, Complex 0 0), (0, Complex 0 0), (1, Complex 0 0), (1, Complex 0 0)]\<rparr>)
   \<and> length (writes_to
        \<lparr>cells = [Complex 0 0, Complex 0 0],
         stores = [(0, Complex 0 0), (0, Complex 0 0), (1, Complex 0 0), (1, Complex 0 0)]\<rparr> 0) = 2
   \<and> length (writes_to
        \<lparr>cells = [Complex 0 0, Complex 0 0],
         stores = [(0, Complex 0 0), (0, Complex 0 0), (1, Complex 0 0), (1, Complex 0 0)]\<rparr> 0) \<noteq> 1"
  using example_fits example_room example_run by (simp add: writes_to_def)

text \<open>
  C9. In a call whose buffers fit and with a mode count below one, the harmonic loop
  returns its accumulator untouched, and every cell below the output length is first
  stored as zero and ends as the complex number \<open>(0, -0)\<close>.
\<close>

theorem zero_modes_zero_output:
  assumes fit: "inputs_fit interp_array start_t_all interval_inds data_length init_length"
    and room: "output_fits waveform data_length"
    and fresh: "stores waveform = []"
    and nm: "nmodes < 1"
  shows "\<exists>b. make_waveform ev waveform interp_array g nmodes mich delta_t start_t_all interval_inds
             data_length init_length = (None, b)
      \<and> (\<forall>i. 0 \<le> i \<and> i < data_length \<longrightarrow>
            cells b ! nat i = Complex 0 (- 0)
            \<and> writes_to b i = [Complex 0 0, Complex 0 (- 0)])
      \<and> (\<forall>cx acc. harmonic_loop ev mich cx nmodes 1 acc = acc)"
proof -
  from fit room obtain spline_coeffs start_t b where
    sc: "stage 0 (4 * NUM_PARS * init_length) interp_array
       (replicate (nat (NUM_PARS * 4 * MAX_SPLINE_POINTS)) None) = Inr spline_coeffs"
    and st: "stage 0 init_length start_t_all (replicate (nat MAX_SPLINE_POINTS) None) = Inr start_t"
    and run: "make_waveform ev waveform interp_array g nmodes mich delta_t start_t_all interval_inds
       data_length init_length = (None, b)"
    and inner: "\<forall>j. 0 \<le> j \<and> j < data_length \<longrightarrow>
        sample_value ev g nmodes mich spline_coeffs start_t interval_inds delta_t init_length j
          = Inr (cells b ! nat j)
        \<and> writes_to b j = writes_to waveform j @ [Complex 0 0, cells b ! nat j]"
    by (rule make_waveform_run [where ev = ev and g = g and nmodes = nmodes and mich = mich
          and delta_t = delta_t])
  have none: "writes_to waveform j = []" for j
    using fresh by (simp add: writes_to_def)
  have skipped: "harmonic_loop ev mich cx nmodes 1 acc = acc" for cx acc
    using nm by (rule harmonic_loop_skipped)
  have zero: "cells b ! nat i = Complex 0 (- 0) \<and> writes_to b i = [Complex 0 0, Complex 0 (- 0)]"
    if i: "0 \<le> i \<and> i < data_length" for i
  proof -
    from i have i': "0 \<le> i" "i < data_length" by simp_all
    from sample_pars_staged [OF fit sc st i', of delta_t]
    obtain p where "sample_pars spline_coeffs start_t interval_inds delta_t init_length i = Inr p"
      by (simp add: Let_def)
    then have "sample_value ev g nmodes mich spline_coeffs start_t interval_inds delta_t
                 init_length i = Inr (Complex 0 (- 0))"
      by (simp add: sample_value_def Let_def skipped)
    with inner i none [of i] show ?thesis by simp
  qed
  from run zero skipped show ?thesis by blast
qed

theorem zero_modes_zero_output_witness:
  "inputs_fit example_interp [0] [0, 0] 2 1 \<and> output_fits example_waveform 2
   \<and> stores example_waveform = [] \<and> (0::int) < 1
   \<and> (\<exists>b. make_waveform example_env example_waveform example_interp example_geometry 0 False 1
              [0] [0, 0] 2 1 = (None, b)
         \<and> cells b ! 0 = Complex 0 (- 0) \<and> writes_to b 0 = [Complex 0 0, Complex 0 (- 0)]
         \<and> cells b ! 1 = Complex 0 (- 0) \<and> writes_to b 1 = [Complex 0 0, Complex 0 (- 0)])"
proof -
  have nm: "(0::int) < 1" by simp
  from zero_modes_zero_output [OF example_fits example_room example_fresh nm,
         of example_env example_geometry False 1]
  obtain b where
    run: "make_waveform example_env example_waveform example_interp example_geometry 0 False 1
              [0] [0, 0] 2 1 = (None, b)"
    and z: "\<forall>i. 0 \<le> i \<and> i < 2 \<longrightarrow>
            cells b ! nat i = Complex 0 (- 0) \<and> writes_to b i = [Complex 0 0, Complex 0 (- 0)]"
    by blast
  from z [rule_format, of 0] z [rule_format, of 1] run example_fits example_room
    example_fresh nm
  show ?thesis by simp
qed

end
